theory Spec2Isabelle
  imports Complex_Main
begin

section \<open>Python values\<close>

text \<open>
  The two source files are dynamically typed Python: the coordinates that reach
  \<^verbatim>\<open>calculate_safety_score\<close> are whatever \<^verbatim>\<open>request.json\<close> or the socket payload held, and
  the elements that reach \<^verbatim>\<open>get_nearby_places\<close> are whatever the Overpass server answered.
  The model therefore works on a datatype of Python values, as \<^verbatim>\<open>json.loads\<close> builds them.

  A Python \<^verbatim>\<open>float\<close> is modelled as an exact real or one of the three special values; the
  arithmetic on finite values is exact (no rounding, no overflow, no signed zero), the
  arithmetic on the special values follows IEEE 754 as CPython exposes it. An \<^verbatim>\<open>int\<close> is
  unbounded, and its conversion to a float fails beyond the range of a double.

  Text written with \<^verbatim>\<open>print\<close> is not part of the model, and the prints are taken to
  succeed.
\<close>

datatype pyfloat = Fin real | PInf | NInf | NaN

datatype pyval =
    PNone
  | PBool bool
  | PInt int
  | PFloat pyfloat
  | PStr string
  | PList "pyval list"
  | PDict "(string \<times> pyval) list"

text \<open>Exceptions carry the text that \<^verbatim>\<open>str(e)\<close> shows.\<close>

datatype exn =
    TypeError string
  | ValueError string
  | AttributeError string
  | KeyError string
  | OverflowError string

fun str_of_exn :: "exn \<Rightarrow> string" where
  "str_of_exn (TypeError m) = m"
| "str_of_exn (ValueError m) = m"
| "str_of_exn (AttributeError m) = m"
| "str_of_exn (KeyError m) = m"
| "str_of_exn (OverflowError m) = m"

text \<open>Sequencing of computations that may raise: the first exception wins.\<close>

fun bindE :: "exn + 'a \<Rightarrow> ('a \<Rightarrow> exn + 'b) \<Rightarrow> exn + 'b" where
  "bindE (Inl e) f = Inl e"
| "bindE (Inr x) f = f x"

fun type_name :: "pyval \<Rightarrow> string" where
  "type_name PNone = ''NoneType''"
| "type_name (PBool b) = ''bool''"
| "type_name (PInt i) = ''int''"
| "type_name (PFloat x) = ''float''"
| "type_name (PStr s) = ''str''"
| "type_name (PList xs) = ''list''"
| "type_name (PDict kvs) = ''dict''"

text \<open>Truth value testing, as \<^verbatim>\<open>and\<close>, \<^verbatim>\<open>or\<close>, \<^verbatim>\<open>not\<close> and \<^verbatim>\<open>if\<close> apply it.\<close>

fun truthy :: "pyval \<Rightarrow> bool" where
  "truthy PNone = False"
| "truthy (PBool b) = b"
| "truthy (PInt i) = (i \<noteq> 0)"
| "truthy (PFloat x) = (x \<noteq> Fin 0)"
| "truthy (PStr s) = (s \<noteq> [])"
| "truthy (PList xs) = (xs \<noteq> [])"
| "truthy (PDict kvs) = (kvs \<noteq> [])"

text \<open>A name between apostrophes, as CPython's messages quote a type or an attribute.\<close>

definition quoted :: "string \<Rightarrow> string" where
  "quoted s = [CHR 0x27] @ s @ [CHR 0x27]"

definition no_attribute :: "pyval \<Rightarrow> string \<Rightarrow> exn" where
  "no_attribute v a =
     AttributeError (quoted (type_name v) @ '' object has no attribute '' @ quoted a)"

text \<open>\<^verbatim>\<open>d.get(k, default)\<close>: only a dict has the method.\<close>

fun dict_get :: "pyval \<Rightarrow> string \<Rightarrow> pyval \<Rightarrow> exn + pyval" where
  "dict_get (PDict kvs) k d = Inr (case map_of kvs k of Some v \<Rightarrow> v | None \<Rightarrow> d)"
| "dict_get v k d = Inl (no_attribute v ''get'')"

text \<open>The numbers: \<^verbatim>\<open>bool\<close> is a subclass of \<^verbatim>\<open>int\<close>.\<close>

fun is_number :: "pyval \<Rightarrow> bool" where
  "is_number (PBool b) = True"
| "is_number (PInt i) = True"
| "is_number (PFloat x) = True"
| "is_number v = False"

fun is_int :: "pyval \<Rightarrow> bool" where
  "is_int (PBool b) = True"
| "is_int (PInt i) = True"
| "is_int v = False"

fun int_value :: "pyval \<Rightarrow> int" where
  "int_value (PBool b) = (if b then 1 else 0)"
| "int_value (PInt i) = i"
| "int_value v = 0"

text \<open>The exact value of a number, as the comparison operators see it.\<close>

fun num_value :: "pyval \<Rightarrow> pyfloat option" where
  "num_value (PBool b) = Some (Fin (if b then 1 else 0))"
| "num_value (PInt i) = Some (Fin (of_int i))"
| "num_value (PFloat x) = Some x"
| "num_value v = None"

text \<open>
  The conversion to a C double that \<^verbatim>\<open>math.radians\<close>, mixed arithmetic and the format
  specification \<^verbatim>\<open>f\<close> apply to their argument. An \<^verbatim>\<open>int\<close> converts when the nearest double
  is finite, that is when its magnitude is below \<open>2\<^sup>1\<^sup>0\<^sup>2\<^sup>4 - 2\<^sup>9\<^sup>7\<^sup>0\<close>; beyond, CPython raises
  \<^verbatim>\<open>OverflowError\<close>.
\<close>

definition converts :: "int \<Rightarrow> bool" where
  "converts i = (\<bar>i\<bar> < 2 ^ 1024 - 2 ^ 970)"

definition too_large :: exn where
  "too_large = OverflowError ''int too large to convert to float''"

fun as_float :: "pyval \<Rightarrow> exn + pyfloat" where
  "as_float (PBool b) = Inr (Fin (if b then 1 else 0))"
| "as_float (PInt i) = (if converts i then Inr (Fin (of_int i)) else Inl too_large)"
| "as_float (PFloat x) = Inr x"
| "as_float v = Inl (TypeError (''must be real number, not '' @ type_name v))"

text \<open>The values that convert: a float, a bool, and an int within the range of a float.\<close>

fun float_like :: "pyval \<Rightarrow> bool" where
  "float_like (PBool b) = True"
| "float_like (PInt i) = converts i"
| "float_like (PFloat x) = True"
| "float_like v = False"

section \<open>Float arithmetic\<close>

fun fneg :: "pyfloat \<Rightarrow> pyfloat" where
  "fneg (Fin x) = Fin (- x)"
| "fneg PInf = NInf"
| "fneg NInf = PInf"
| "fneg NaN = NaN"

fun fadd :: "pyfloat \<Rightarrow> pyfloat \<Rightarrow> pyfloat" where
  "fadd NaN y = NaN"
| "fadd x NaN = NaN"
| "fadd (Fin x) (Fin y) = Fin (x + y)"
| "fadd PInf NInf = NaN"
| "fadd NInf PInf = NaN"
| "fadd PInf y = PInf"
| "fadd NInf y = NInf"
| "fadd (Fin x) y = y"

definition fsub :: "pyfloat \<Rightarrow> pyfloat \<Rightarrow> pyfloat" where
  "fsub x y = fadd x (fneg y)"

text \<open>Multiplication by a finite factor \<open>c\<close> of an infinity whose sign is positive iff \<open>pos\<close>.\<close>

definition inf_times :: "bool \<Rightarrow> real \<Rightarrow> pyfloat" where
  "inf_times pos c = (if c = 0 then NaN else if (0 < c) = pos then PInf else NInf)"

fun fmul :: "pyfloat \<Rightarrow> pyfloat \<Rightarrow> pyfloat" where
  "fmul NaN y = NaN"
| "fmul x NaN = NaN"
| "fmul (Fin x) (Fin y) = Fin (x * y)"
| "fmul PInf (Fin y) = inf_times True y"
| "fmul NInf (Fin y) = inf_times False y"
| "fmul (Fin x) PInf = inf_times True x"
| "fmul (Fin x) NInf = inf_times False x"
| "fmul PInf PInf = PInf"
| "fmul NInf NInf = PInf"
| "fmul PInf NInf = NInf"
| "fmul NInf PInf = NInf"

text \<open>\<^verbatim>\<open>x / 2\<close> and \<^verbatim>\<open>x ** 2\<close>, the only division and power of the source.\<close>

definition fhalf :: "pyfloat \<Rightarrow> pyfloat" where
  "fhalf x = fmul x (Fin (1 / 2))"

definition fsq :: "pyfloat \<Rightarrow> pyfloat" where
  "fsq x = fmul x x"

text \<open>
  \<^verbatim>\<open>x - y\<close> on values: exact on two ints, float subtraction when a float is involved (the
  other operand is converted), \<^verbatim>\<open>TypeError\<close> on anything that is not a number.
\<close>

definition py_sub :: "pyval \<Rightarrow> pyval \<Rightarrow> exn + pyval" where
  "py_sub x y =
     (if is_int x \<and> is_int y then Inr (PInt (int_value x - int_value y))
      else if is_number x \<and> is_number y
      then bindE (as_float x) (\<lambda>a. bindE (as_float y) (\<lambda>b. Inr (PFloat (fsub a b))))
      else Inl (TypeError (''unsupported operand type(s) for -: '' @ quoted (type_name x)
                 @ '' and '' @ quoted (type_name y))))"

text \<open>
  The functions of the \<^verbatim>\<open>math\<close> module. \<^verbatim>\<open>math.sin\<close> and \<^verbatim>\<open>math.cos\<close> raise
  \<^verbatim>\<open>ValueError\<close> on an infinity and pass a NaN on; \<^verbatim>\<open>math.sqrt\<close> raises on a negative
  argument; \<^verbatim>\<open>math.radians\<close> and \<^verbatim>\<open>math.atan2\<close> never raise on floats.
\<close>

definition math_domain_error :: exn where
  "math_domain_error = ValueError ''math domain error''"

definition math_radians :: "pyval \<Rightarrow> exn + pyfloat" where
  "math_radians v = bindE (as_float v) (\<lambda>x. Inr (fmul x (Fin (pi / 180))))"

fun math_sin :: "pyfloat \<Rightarrow> exn + pyfloat" where
  "math_sin (Fin x) = Inr (Fin (sin x))"
| "math_sin NaN = Inr NaN"
| "math_sin x = Inl math_domain_error"

fun math_cos :: "pyfloat \<Rightarrow> exn + pyfloat" where
  "math_cos (Fin x) = Inr (Fin (cos x))"
| "math_cos NaN = Inr NaN"
| "math_cos x = Inl math_domain_error"

fun math_sqrt :: "pyfloat \<Rightarrow> exn + pyfloat" where
  "math_sqrt (Fin x) = (if x < 0 then Inl math_domain_error else Inr (Fin (sqrt x)))"
| "math_sqrt NaN = Inr NaN"
| "math_sqrt PInf = Inr PInf"
| "math_sqrt NInf = Inl math_domain_error"

definition atan2_real :: "real \<Rightarrow> real \<Rightarrow> real" where
  "atan2_real y x =
     (if 0 < x then arctan (y / x)
      else if x < 0 then (if 0 \<le> y then arctan (y / x) + pi else arctan (y / x) - pi)
      else if 0 < y then pi / 2
      else if y < 0 then - (pi / 2)
      else 0)"

fun math_atan2 :: "pyfloat \<Rightarrow> pyfloat \<Rightarrow> pyfloat" where
  "math_atan2 NaN x = NaN"
| "math_atan2 y NaN = NaN"
| "math_atan2 (Fin y) (Fin x) = Fin (atan2_real y x)"
| "math_atan2 PInf PInf = Fin (pi / 4)"
| "math_atan2 PInf NInf = Fin (3 * pi / 4)"
| "math_atan2 PInf (Fin x) = Fin (pi / 2)"
| "math_atan2 NInf PInf = Fin (- (pi / 4))"
| "math_atan2 NInf NInf = Fin (- (3 * pi / 4))"
| "math_atan2 NInf (Fin x) = Fin (- (pi / 2))"
| "math_atan2 (Fin y) PInf = Fin 0"
| "math_atan2 (Fin y) NInf = Fin (if 0 \<le> y then pi else - pi)"

section \<open>calculate\_distance\<close>

text \<open>
  The body of the \<^verbatim>\<open>try\<close> block, statement by statement: the two \<^verbatim>\<open>math.radians\<close> of the
  latitudes, the two differences, \<open>a\<close>, and the returned product.
\<close>

definition haversine_a :: "pyfloat \<Rightarrow> pyfloat \<Rightarrow> pyfloat \<Rightarrow> pyfloat \<Rightarrow> exn + pyfloat" where
  "haversine_a p1 p2 dphi dlam =
     bindE (math_sin (fhalf dphi)) (\<lambda>s1.
     bindE (math_cos p1) (\<lambda>c1.
     bindE (math_cos p2) (\<lambda>c2.
     bindE (math_sin (fhalf dlam)) (\<lambda>s2.
       Inr (fadd (fsq s1) (fmul (fmul c1 c2) (fsq s2)))))))"

definition distance_try :: "pyval \<Rightarrow> pyval \<Rightarrow> pyval \<Rightarrow> pyval \<Rightarrow> exn + pyfloat" where
  "distance_try lat1 lon1 lat2 lon2 =
     bindE (math_radians lat1) (\<lambda>p1.
     bindE (math_radians lat2) (\<lambda>p2.
     bindE (py_sub lat2 lat1) (\<lambda>dlat.
     bindE (math_radians dlat) (\<lambda>dphi.
     bindE (py_sub lon2 lon1) (\<lambda>dlon.
     bindE (math_radians dlon) (\<lambda>dlam.
     bindE (haversine_a p1 p2 dphi dlam) (\<lambda>a.
     bindE (math_sqrt a) (\<lambda>r1.
     bindE (math_sqrt (fsub (Fin 1) a)) (\<lambda>r2.
       Inr (fmul (Fin (6371 * 2)) (math_atan2 r1 r2)))))))))))"

text \<open>
  The bare \<^verbatim>\<open>except\<close> turns every exception into \<^verbatim>\<open>float('inf')\<close>, so the function
  itself never raises.

  On finite floats the operations above compute the exact real value. The program rounds
  every step to a double: for points that are nearly antipodal the rounded \<open>a\<close> can exceed 1,
  so that \<^verbatim>\<open>math.sqrt(1-a)\<close> raises, and a difference of two huge values overflows to an
  infinity, so that \<^verbatim>\<open>math.sin\<close> raises; the program then returns the sentinel where this
  definition gives a finite distance. What is stated below about all inputs therefore
  concerns non-numbers and infinities only, where no rounding takes part; finite distances
  are stated for single inputs.
\<close>

definition calculate_distance :: "pyval \<Rightarrow> pyval \<Rightarrow> pyval \<Rightarrow> pyval \<Rightarrow> pyfloat" where
  "calculate_distance lat1 lon1 lat2 lon2 =
     (case distance_try lat1 lon1 lat2 lon2 of Inl e \<Rightarrow> PInf | Inr d \<Rightarrow> d)"

section \<open>Rounding, comparison and text\<close>

text \<open>
  \<^verbatim>\<open>round(x, n)\<close> rounds to the nearest multiple of \<open>10\<^sup>-\<^sup>n\<close> and a tie to the even one;
  it passes a NaN and an infinity on.
\<close>

definition round_half_even :: "real \<Rightarrow> int" where
  "round_half_even y =
     (let f = \<lfloor>y\<rfloor>; d = y - of_int f
      in if d < 1 / 2 then f else if 1 / 2 < d then f + 1 else if even f then f else f + 1)"

definition py_round :: "real \<Rightarrow> nat \<Rightarrow> real" where
  "py_round x n = of_int (round_half_even (x * 10 ^ n)) / 10 ^ n"

fun fround :: "pyfloat \<Rightarrow> nat \<Rightarrow> pyfloat" where
  "fround (Fin x) n = Fin (py_round x n)"
| "fround x n = x"

text \<open>\<^verbatim>\<open>x < y\<close> and \<^verbatim>\<open>x <= y\<close> on floats: every comparison with a NaN is false.\<close>

fun flt :: "pyfloat \<Rightarrow> pyfloat \<Rightarrow> bool" where
  "flt NaN y = False"
| "flt x NaN = False"
| "flt (Fin x) (Fin y) = (x < y)"
| "flt PInf y = False"
| "flt x PInf = True"
| "flt NInf y = (y \<noteq> NInf)"
| "flt x NInf = False"

fun fle :: "pyfloat \<Rightarrow> pyfloat \<Rightarrow> bool" where
  "fle NaN y = False"
| "fle x NaN = False"
| "fle x y = (x = y \<or> flt x y)"

text \<open>
  \<^verbatim>\<open>-90 <= lat\<close> and \<^verbatim>\<open>lat <= 90\<close>: an \<^verbatim>\<open>int\<close> literal against a value. Only numbers
  compare with an \<^verbatim>\<open>int\<close>.
\<close>

definition not_supported :: "string \<Rightarrow> string \<Rightarrow> string \<Rightarrow> exn" where
  "not_supported opr l r =
     TypeError (quoted opr @ '' not supported between instances of '' @ quoted l
       @ '' and '' @ quoted r)"

definition int_le_val :: "int \<Rightarrow> pyval \<Rightarrow> exn + bool" where
  "int_le_val i v =
     (case num_value v of
        Some x \<Rightarrow> Inr (fle (Fin (of_int i)) x)
      | None \<Rightarrow> Inl (not_supported ''<='' ''int'' (type_name v)))"

definition val_le_int :: "pyval \<Rightarrow> int \<Rightarrow> exn + bool" where
  "val_le_int v i =
     (case num_value v of
        Some x \<Rightarrow> Inr (fle x (Fin (of_int i)))
      | None \<Rightarrow> Inl (not_supported ''<='' (type_name v) ''int''))"

text \<open>The decimal digits of a natural number, as \<^verbatim>\<open>f"{hour}"\<close> prints them.\<close>

fun str_nat :: "nat \<Rightarrow> string" where
  "str_nat n = (if 10 \<le> n then str_nat (n div 10) else []) @ [char_of (n mod 10 + 48)]"

declare str_nat.simps [simp del]

text \<open>
  \<^verbatim>\<open>str.upper\<close> and \<^verbatim>\<open>str.title\<close> on ASCII text. A \<open>string\<close> here is a list of bytes, and
  bytes outside ASCII are left as they are.
\<close>

definition is_lower :: "char \<Rightarrow> bool" where
  "is_lower c = (97 \<le> (of_char c :: nat) \<and> (of_char c :: nat) \<le> 122)"

definition is_upper :: "char \<Rightarrow> bool" where
  "is_upper c = (65 \<le> (of_char c :: nat) \<and> (of_char c :: nat) \<le> 90)"

definition upper_char :: "char \<Rightarrow> char" where
  "upper_char c = (if is_lower c then char_of ((of_char c :: nat) - 32) else c)"

definition lower_char :: "char \<Rightarrow> char" where
  "lower_char c = (if is_upper c then char_of ((of_char c :: nat) + 32) else c)"

definition upper :: "string \<Rightarrow> string" where
  "upper s = map upper_char s"

text \<open>\<open>title_from cased s\<close>: \<open>cased\<close> says whether the character before \<open>s\<close> was a letter.\<close>

fun title_from :: "bool \<Rightarrow> string \<Rightarrow> string" where
  "title_from cased [] = []"
| "title_from cased (c # cs) =
     (if is_lower c \<or> is_upper c
      then (if cased then lower_char c else upper_char c) # title_from True cs
      else c # title_from False cs)"

definition title :: "string \<Rightarrow> string" where
  "title s = title_from False s"

text \<open>\<^verbatim>\<open>", ".join(xs)\<close>.\<close>

fun join_comma :: "string list \<Rightarrow> string" where
  "join_comma [] = []"
| "join_comma [x] = x"
| "join_comma (x # y # ys) = x @ '', '' @ join_comma (y # ys)"

text \<open>\<^verbatim>\<open>d[k]\<close> on a dictionary given as a list of pairs; \<^verbatim>\<open>str\<close> of a \<^verbatim>\<open>KeyError\<close> is the
  quoted key.\<close>

definition dict_index :: "(string \<times> 'a) list \<Rightarrow> string \<Rightarrow> exn + 'a" where
  "dict_index d k = (case map_of d k of Some v \<Rightarrow> Inr v | None \<Rightarrow> Inl (KeyError (quoted k)))"

section \<open>The module constants\<close>

definition COUNTRY_BASELINES :: "(string \<times> real) list" where
  "COUNTRY_BASELINES =
     [(''NO'', 118 / 100), (''SE'', 116 / 100), (''DK'', 116 / 100), (''FI'', 117 / 100),
      (''CH'', 115 / 100), (''CA'', 111 / 100), (''DE'', 110 / 100), (''AU'', 109 / 100),
      (''GB'', 108 / 100), (''US'', 104 / 100), (''IN'', 88 / 100), (''BR'', 89 / 100),
      (''CN'', 94 / 100), (''MX'', 84 / 100), (''DEFAULT'', 1)]"

definition WEIGHTS :: "(string \<times> real) list" where
  "WEIGHTS =
     [(''temporal_risk'', 28 / 100), (''emergency_proximity'', 27 / 100),
      (''population_density'', 25 / 100), (''infrastructure'', 20 / 100)]"

section \<open>fetch\_osm\_data and get\_nearby\_places\<close>

text \<open>
  The network is outside the program: the outcome of the one \<^verbatim>\<open>requests.post\<close> of a call
  is an argument of the model. \<open>Transport_Error\<close> is a raised exception (timeout, refused
  connection); a response has its status code and what \<^verbatim>\<open>response.json()\<close> returns,
  \<open>None\<close> when that raises.
\<close>

datatype http_result = Transport_Error | Http_Response nat "pyval option"

definition fetch_osm_data :: "http_result \<Rightarrow> pyval \<times> bool" where
  "fetch_osm_data post =
     (case post of
        Transport_Error \<Rightarrow> (PList [], False)
      | Http_Response status_code body \<Rightarrow>
          if status_code = 200 then
            (case body of
               None \<Rightarrow> (PList [], False)
             | Some j \<Rightarrow>
                 (case dict_get j ''elements'' (PList []) of
                    Inl e \<Rightarrow> (PList [], False)
                  | Inr elements \<Rightarrow> (elements, True)))
          else (PList [], False))"

text \<open>A record of \<^verbatim>\<open>places\<close>; the key \<^verbatim>\<open>'type'\<close> is the field \<open>place_type\<close>.\<close>

record place =
  name :: pyval
  place_type :: string
  distance :: pyfloat
  latitude :: pyval
  longitude :: pyval

text \<open>The keys of \<^verbatim>\<open>queries\<close>.\<close>

definition query_types :: "string list" where
  "query_types =
     [''hospital'', ''police'', ''bus_stop'', ''train'', ''activity'', ''infrastructure'']"

text \<open>\<^verbatim>\<open>elem.get(k) or elem.get('center', {}).get(k)\<close>.\<close>

definition resolve :: "pyval \<Rightarrow> string \<Rightarrow> exn + pyval" where
  "resolve elem k =
     bindE (dict_get elem k PNone) (\<lambda>v.
       if truthy v then Inr v
       else bindE (dict_get elem ''center'' (PDict [])) (\<lambda>c. dict_get c k PNone))"

text \<open>
  The body of the loop over the elements, inside its \<^verbatim>\<open>try\<close>: \<open>Inr None\<close> is a
  \<^verbatim>\<open>continue\<close>, \<open>Inr (Some p)\<close> the appended record.
\<close>

definition place_try :: "pyval \<Rightarrow> pyval \<Rightarrow> string \<Rightarrow> pyval \<Rightarrow> exn + place option" where
  "place_try lat lon ptype elem =
     bindE (resolve elem ''lat'') (\<lambda>e_lat.
     bindE (resolve elem ''lon'') (\<lambda>e_lon.
       if \<not> (truthy e_lat \<and> truthy e_lon) then Inr None
       else
         let dist = calculate_distance lat lon e_lat e_lon in
         if dist = PInf then Inr None
         else
           bindE (dict_get elem ''tags'' (PDict [])) (\<lambda>tags.
           bindE (dict_get tags ''name'' (PStr (title ptype))) (\<lambda>nm.
             Inr (Some \<lparr>name = nm, place_type = ptype, distance = fround dist 2,
                        latitude = e_lat, longitude = e_lon\<rparr>)))))"

text \<open>The bare \<^verbatim>\<open>except: continue\<close> of the loop.\<close>

definition place_of :: "pyval \<Rightarrow> pyval \<Rightarrow> string \<Rightarrow> pyval \<Rightarrow> place option" where
  "place_of lat lon ptype elem =
     (case place_try lat lon ptype elem of Inl e \<Rightarrow> None | Inr r \<Rightarrow> r)"

text \<open>
  \<^verbatim>\<open>for elem in elements\<close>: a list gives its items, a string its characters, a dict its
  keys; anything else raises at the \<^verbatim>\<open>for\<close>, outside the \<^verbatim>\<open>try\<close> of the loop body.
\<close>

fun iter_elements :: "pyval \<Rightarrow> exn + pyval list" where
  "iter_elements (PList xs) = Inr xs"
| "iter_elements (PStr s) = Inr (map (\<lambda>c. PStr [c]) s)"
| "iter_elements (PDict kvs) = Inr (map (\<lambda>kv. PStr (fst kv)) kvs)"
| "iter_elements v = Inl (TypeError (quoted (type_name v) @ '' object is not iterable''))"

text \<open>
  \<^verbatim>\<open>sorted(places, key=lambda x: x['distance'])\<close>: a stable sort that compares keys with
  \<^verbatim>\<open><\<close> only. Each record goes in front of the first one with a greater key. (With NaN
  keys the order CPython yields depends on its merge strategy; no statement below
  depends on the order.)
\<close>

fun insort_place :: "place \<Rightarrow> place list \<Rightarrow> place list" where
  "insort_place x [] = [x]"
| "insort_place x (y # ys) =
     (if flt (distance x) (distance y) then x # y # ys else y # insort_place x ys)"

definition sorted_places :: "place list \<Rightarrow> place list" where
  "sorted_places ps = foldl (\<lambda>acc p. insort_place p acc) [] ps"

definition get_nearby_places ::
  "http_result \<Rightarrow> pyval \<Rightarrow> pyval \<Rightarrow> string \<Rightarrow> nat \<Rightarrow> exn + (place list \<times> bool)" where
  "get_nearby_places post lat lon ptype radius =
     (if ptype \<notin> set query_types then Inr ([], False)
      else
        (case fetch_osm_data post of
           (elements, success) \<Rightarrow>
             if \<not> success then Inr ([], False)
             else
               bindE (iter_elements elements) (\<lambda>elems.
                 Inr (sorted_places (List.map_filter (place_of lat lon ptype) elems), True))))"

section \<open>calculate\_safety\_score\<close>

text \<open>The report, one record per nested dictionary.\<close>

record score_breakdown =
  temporal_risk :: real
  emergency_proximity :: real
  population_density :: real
  infrastructure :: real

record status_block =
  overall :: string
  status_color :: string
  unavailable :: "string list"
  message :: "string option"

record nearest_block =
  hospital :: "place option"
  police :: "place option"
  bus_stop :: "place option"
  train_station :: "place option"

record places_block =
  hospitals :: "place list"
  police_stations :: "place list"
  bus_stops :: "place list"
  train_stations :: "place list"

record stats_block =
  activity_count :: nat
  infrastructure_count :: nat
  emergency_services_density :: real

record safety_report =
  score :: real
  rating :: string
  color :: string
  confidence :: real
  timestamp :: string
  breakdown :: score_breakdown
  time_period :: string
  service_status :: status_block
  nearest :: nearest_block
  all_places :: places_block
  stats :: stats_block

text \<open>
  What one call reads from outside: the clock (\<^verbatim>\<open>datetime.now().hour\<close> at the top of the
  \<^verbatim>\<open>try\<close>, the ISO timestamp of the report, the hour read again in the \<^verbatim>\<open>except\<close>
  branch) and the outcome of each of the six Overpass requests.
\<close>

record world =
  hour :: nat
  now_iso :: string
  hour_on_error :: nat
  post_hospital :: http_result
  post_police :: http_result
  post_bus_stop :: http_result
  post_train :: http_result
  post_activity :: http_result
  post_infrastructure :: http_result

text \<open>
  The six results of \<^verbatim>\<open>get_nearby_places\<close>, under the names of the local variables; the
  six lists carry the suffix \<open>_found\<close>, since \<^verbatim>\<open>hospitals\<close>, \<^verbatim>\<open>police\<close> and \<^verbatim>\<open>bus_stops\<close> are
  keys of the report as well.
\<close>

record fetched =
  hospitals_found :: "place list"
  hosp_success :: bool
  police_found :: "place list"
  police_success :: bool
  bus_stops_found :: "place list"
  bus_success :: bool
  trains_found :: "place list"
  train_success :: bool
  activity_found :: "place list"
  activity_success :: bool
  infra_found :: "place list"
  infra_success :: bool

text \<open>
  The format specification \<^verbatim>\<open>:.4f\<close> of the banner, printed before the \<^verbatim>\<open>try\<close>: a float
  and a bool accept it, an int is converted to a float first, a string raises
  \<^verbatim>\<open>ValueError\<close>, every other value \<^verbatim>\<open>TypeError\<close>.
\<close>

fun format_4f :: "pyval \<Rightarrow> exn + unit" where
  "format_4f (PBool b) = Inr ()"
| "format_4f (PInt i) = (if converts i then Inr () else Inl too_large)"
| "format_4f (PFloat x) = Inr ()"
| "format_4f (PStr s) = Inl (ValueError (''Unknown format code '' @ quoted ''f''
                           @ '' for object of type '' @ quoted ''str''))"
| "format_4f v = Inl (TypeError (''unsupported format string passed to '' @ type_name v
                        @ ''.__format__''))"

definition banner :: "pyval \<Rightarrow> pyval \<Rightarrow> exn + unit" where
  "banner lat lon = bindE (format_4f lat) (\<lambda>u. format_4f lon)"

definition time_band :: "nat \<Rightarrow> real \<times> string" where
  "time_band hr =
     (if 9 \<le> hr \<and> hr \<le> 18 then (88, str_nat hr @ '':00 - Low Risk'')
      else if (7 \<le> hr \<and> hr < 9) \<or> (18 < hr \<and> hr \<le> 20)
        then (62, str_nat hr @ '':00 - Moderate Risk'')
      else (25, str_nat hr @ '':00 - High Risk''))"

definition fetch_all :: "world \<Rightarrow> pyval \<Rightarrow> pyval \<Rightarrow> exn + fetched" where
  "fetch_all w lat lon =
     bindE (get_nearby_places (post_hospital w) lat lon ''hospital'' 5000) (\<lambda>(h, hs).
     bindE (get_nearby_places (post_police w) lat lon ''police'' 5000) (\<lambda>(p, ps).
     bindE (get_nearby_places (post_bus_stop w) lat lon ''bus_stop'' 1000) (\<lambda>(b, bs).
     bindE (get_nearby_places (post_train w) lat lon ''train'' 2000) (\<lambda>(t, ts).
     bindE (get_nearby_places (post_activity w) lat lon ''activity'' 600) (\<lambda>(a, as).
     bindE (get_nearby_places (post_infrastructure w) lat lon ''infrastructure'' 500) (\<lambda>(i, is).
       Inr \<lparr>hospitals_found = h, hosp_success = hs, police_found = p, police_success = ps,
            bus_stops_found = b, bus_success = bs, trains_found = t, train_success = ts,
            activity_found = a, activity_success = as, infra_found = i,
            infra_success = is\<rparr>))))))"

definition services_available :: "fetched \<Rightarrow> bool" where
  "services_available f = ((hosp_success f \<or> police_success f) \<and> activity_success f)"

definition no_nearest :: nearest_block where
  "no_nearest = \<lparr>hospital = None, police = None, bus_stop = None, train_station = None\<rparr>"

definition no_places :: places_block where
  "no_places = \<lparr>hospitals = [], police_stations = [], bus_stops = [], train_stations = []\<rparr>"

definition zero_breakdown :: score_breakdown where
  "zero_breakdown = \<lparr>temporal_risk = 0, emergency_proximity = 0, population_density = 0,
                      infrastructure = 0\<rparr>"

definition zero_stats :: stats_block where
  "zero_stats = \<lparr>activity_count = 0, infrastructure_count = 0,
                  emergency_services_density = 0\<rparr>"

text \<open>The report returned when the minimum required data is not available.\<close>

definition degraded_report :: "world \<Rightarrow> string \<Rightarrow> safety_report" where
  "degraded_report w period =
     \<lparr>score = 0,
      rating = ''SERVICE UNAVAILABLE'',
      color = ''#999999'',
      confidence = 0,
      timestamp = now_iso w,
      breakdown = zero_breakdown,
      time_period = period,
      service_status =
        \<lparr>overall = ''Sorry, we don'' @ [CHR 0x27] @ ''t have services running for this location'',
         status_color = ''#f44336'',
         unavailable = [''emergency_services'', ''activity_data''],
         message = Some (''Paddos is not available in this area yet. We'' @ [CHR 0x27]
                     @ ''re working to expand our coverage!'')\<rparr>,
      nearest = no_nearest,
      all_places = no_places,
      stats = zero_stats\<rparr>"

text \<open>\<^verbatim>\<open>min\<close> over a generator: the first item, replaced by each later one that is smaller.\<close>

fun py_min :: "pyfloat \<Rightarrow> pyfloat list \<Rightarrow> pyfloat" where
  "py_min m [] = m"
| "py_min m (x # xs) = py_min (if flt x m then x else m) xs"

definition emerg_score :: "place list \<Rightarrow> real" where
  "emerg_score emergency =
     (case map distance emergency of
        [] \<Rightarrow> 22
      | d # ds \<Rightarrow>
          let min_dist = py_min d ds in
          if fle min_dist (Fin (8 / 10)) then 96
          else if fle min_dist (Fin (15 / 10)) then 85
          else if fle min_dist (Fin (25 / 10)) then 70
          else if fle min_dist (Fin 4) then 50
          else 30)"

definition pop_score :: "nat \<Rightarrow> nat \<Rightarrow> real" where
  "pop_score hr act_count =
     (let base = (if 60 \<le> act_count then 92
                  else if 40 \<le> act_count then 82
                  else if 25 \<le> act_count then 68
                  else if 12 \<le> act_count then 50
                  else 35)
      in if hr < 6 \<or> 22 < hr then base * (7 / 10) else base)"

definition infra_score :: "nat \<Rightarrow> nat \<Rightarrow> real" where
  "infra_score hr infra_count =
     (if 6 \<le> hr \<and> hr \<le> 19 then (if 20 \<le> infra_count then 80 else 65)
      else if 20 \<le> infra_count then 85
      else if 10 \<le> infra_count then 60
      else 30)"

definition raw_score :: "real \<Rightarrow> real \<Rightarrow> real \<Rightarrow> real \<Rightarrow> exn + real" where
  "raw_score time_score emerg pop infra =
     bindE (dict_index WEIGHTS ''temporal_risk'') (\<lambda>w1.
     bindE (dict_index WEIGHTS ''emergency_proximity'') (\<lambda>w2.
     bindE (dict_index WEIGHTS ''population_density'') (\<lambda>w3.
     bindE (dict_index WEIGHTS ''infrastructure'') (\<lambda>w4.
       Inr (time_score * w1 + emerg * w2 + pop * w3 + infra * w4)))))"

text \<open>\<^verbatim>\<open>country_code.upper()\<close>: only a string has the method.\<close>

fun py_upper :: "pyval \<Rightarrow> exn + string" where
  "py_upper (PStr s) = Inr (upper s)"
| "py_upper v = Inl (no_attribute v ''upper'')"

definition country_multiplier :: "pyval \<Rightarrow> exn + real" where
  "country_multiplier country_code =
     bindE (py_upper country_code) (\<lambda>key.
     bindE (dict_index COUNTRY_BASELINES ''DEFAULT'') (\<lambda>dflt.
       Inr (case map_of COUNTRY_BASELINES key of Some m \<Rightarrow> m | None \<Rightarrow> dflt)))"

definition final_score :: "real \<Rightarrow> real \<Rightarrow> real" where
  "final_score raw multiplier = min (max (raw * multiplier) 0) 100"

definition rating_of :: "real \<Rightarrow> string \<times> string" where
  "rating_of final =
     (if 75 \<le> final then (''SAFE'', ''#4CAF50'')
      else if 55 \<le> final then (''MODERATE'', ''#FFC107'')
      else if 35 \<le> final then (''CAUTION'', ''#FF9800'')
      else (''HIGH RISK'', ''#F44336''))"

text \<open>\<^verbatim>\<open>sum\<close> of a list of booleans counts the true ones.\<close>

definition sum_bools :: "bool list \<Rightarrow> nat" where
  "sum_bools bs = sum_list (map (\<lambda>b. if b then 1 else 0) bs)"

definition confidence_of :: "fetched \<Rightarrow> real" where
  "confidence_of f =
     (let data_quality =
        real (sum_bools [hosp_success f, police_success f, activity_success f, infra_success f]) / 4
      in py_round (data_quality * 85) 1)"

definition unavailable_of :: "fetched \<Rightarrow> string list" where
  "unavailable_of f =
     (if \<not> hosp_success f \<and> \<not> police_success f then [''emergency_services''] else [])
     @ (if \<not> activity_success f then [''activity_data''] else [])
     @ (if \<not> infra_success f then [''infrastructure''] else [])"

definition first_or_none :: "'a list \<Rightarrow> 'a option" where
  "first_or_none xs = (case xs of [] \<Rightarrow> None | x # rest \<Rightarrow> Some x)"

text \<open>The rest of the \<^verbatim>\<open>try\<close> block once the minimum data is there.\<close>

definition scored_report :: "world \<Rightarrow> real \<Rightarrow> string \<Rightarrow> fetched \<Rightarrow> pyval \<Rightarrow> exn + safety_report" where
  "scored_report w time_score period f country_code =
     (let emergency = hospitals_found f @ police_found f;
          emerg = emerg_score emergency;
          act_count = length (activity_found f);
          pop = pop_score (hour w) act_count;
          infra_count = length (infra_found f) + length (bus_stops_found f)
                        + length (trains_found f);
          infra = infra_score (hour w) infra_count
      in
        bindE (raw_score time_score emerg pop infra) (\<lambda>raw.
        bindE (country_multiplier country_code) (\<lambda>multiplier.
          let final = final_score raw multiplier;
              unavail = unavailable_of f
          in Inr
            \<lparr>score = py_round final 1,
             rating = fst (rating_of final),
             color = snd (rating_of final),
             confidence = confidence_of f,
             timestamp = now_iso w,
             breakdown =
               \<lparr>temporal_risk = py_round time_score 1,
                emergency_proximity = py_round emerg 1,
                population_density = py_round pop 1,
                infrastructure = py_round infra 1\<rparr>,
             time_period = period,
             service_status =
               \<lparr>overall = (if unavail = [] then ''All services operational''
                           else ''Limited data: '' @ join_comma unavail),
                status_color = (if unavail = [] then ''#4CAF50'' else ''#FF9800''),
                unavailable = unavail,
                message = None\<rparr>,
             nearest =
               \<lparr>hospital = first_or_none (hospitals_found f),
                police = first_or_none (police_found f),
                bus_stop = first_or_none (bus_stops_found f),
                train_station = first_or_none (trains_found f)\<rparr>,
             all_places =
               \<lparr>hospitals = take 5 (hospitals_found f),
                police_stations = take 5 (police_found f),
                bus_stops = take 10 (bus_stops_found f),
                train_stations = take 5 (trains_found f)\<rparr>,
             stats =
               \<lparr>activity_count = act_count,
                infrastructure_count = infra_count,
                emergency_services_density =
                  (if emergency \<noteq> [] then py_round (real (length emergency) / 25) 2
                   else 0)\<rparr>\<rparr>)))"

text \<open>The \<^verbatim>\<open>try\<close> block.\<close>

definition score_try :: "world \<Rightarrow> pyval \<Rightarrow> pyval \<Rightarrow> pyval \<Rightarrow> exn + safety_report" where
  "score_try w lat lon country_code =
     (case time_band (hour w) of
        (time_score, period) \<Rightarrow>
          bindE (fetch_all w lat lon) (\<lambda>f.
            if \<not> services_available f then Inr (degraded_report w period)
            else scored_report w time_score period f country_code))"

text \<open>The report of the \<^verbatim>\<open>except Exception\<close> branch.\<close>

definition error_report :: "world \<Rightarrow> exn \<Rightarrow> safety_report" where
  "error_report w e =
     \<lparr>score = 0,
      rating = ''ERROR'',
      color = ''#999999'',
      confidence = 0,
      timestamp = now_iso w,
      breakdown = zero_breakdown,
      time_period = str_nat (hour_on_error w) @ '':00'',
      service_status =
        \<lparr>overall = ''System error occurred'',
         status_color = ''#f44336'',
         unavailable = [''all''],
         message = Some (''Error: '' @ take 100 (str_of_exn e))\<rparr>,
      nearest = no_nearest,
      all_places = no_places,
      stats = zero_stats\<rparr>"

text \<open>
  The whole function: the banner is printed first, outside the \<^verbatim>\<open>try\<close>, so an exception
  of its formatting reaches the caller (\<open>Inl\<close>); every exception of the \<^verbatim>\<open>try\<close> block
  becomes the error report.
\<close>

definition calculate_safety_score :: "world \<Rightarrow> pyval \<Rightarrow> pyval \<Rightarrow> pyval \<Rightarrow> exn + safety_report" where
  "calculate_safety_score w lat lon country_code =
     bindE (banner lat lon) (\<lambda>u.
       Inr (case score_try w lat lon country_code of
              Inl e \<Rightarrow> error_report w e
            | Inr r \<Rightarrow> r))"

section \<open>api\_safety\<close>

text \<open>The pair \<^verbatim>\<open>(jsonify({...}), status)\<close> that the route returns.\<close>

record api_response =
  http_status :: nat
  success :: bool
  data :: "safety_report option"
  error :: "string option"

text \<open>
  \<^verbatim>\<open>-90 <= lat <= 90 and -180 <= lon <= 180\<close>: the comparisons run left to right and stop
  at the first false one.
\<close>

definition in_range :: "pyval \<Rightarrow> pyval \<Rightarrow> exn + bool" where
  "in_range lat lon =
     bindE (int_le_val (- 90) lat) (\<lambda>c1. if \<not> c1 then Inr False else
     bindE (val_le_int lat 90) (\<lambda>c2. if \<not> c2 then Inr False else
     bindE (int_le_val (- 180) lon) (\<lambda>c3. if \<not> c3 then Inr False else
       val_le_int lon 180)))"

text \<open>
  The \<^verbatim>\<open>try\<close> block of the route. \<open>request_json\<close> is what \<^verbatim>\<open>request.json\<close> gives: the
  parsed body, or the exception Flask raises on a body it cannot read.
\<close>

definition api_safety_try :: "world \<Rightarrow> exn + pyval \<Rightarrow> exn + api_response" where
  "api_safety_try w request_json =
     bindE request_json (\<lambda>body.
     bindE (dict_get body ''latitude'' PNone) (\<lambda>lat.
     bindE (dict_get body ''longitude'' PNone) (\<lambda>lon.
     bindE (dict_get body ''country_code'' (PStr ''XX'')) (\<lambda>country_code.
       if \<not> (truthy lat \<and> truthy lon)
       then Inr \<lparr>http_status = 400, success = False, data = None,
                 error = Some ''Invalid coordinates''\<rparr>
       else
         bindE (in_range lat lon) (\<lambda>ok.
           if \<not> ok
           then Inr \<lparr>http_status = 400, success = False, data = None,
                     error = Some ''Coordinates out of range''\<rparr>
           else
             bindE (calculate_safety_score w lat lon country_code) (\<lambda>result.
               Inr \<lparr>http_status = 200, success = True, data = Some result,
                    error = None\<rparr>))))))"

definition api_safety :: "world \<Rightarrow> exn + pyval \<Rightarrow> api_response" where
  "api_safety w request_json =
     (case api_safety_try w request_json of
        Inl e \<Rightarrow> \<lparr>http_status = 500, success = False, data = None,
                   error = Some (str_of_exn e)\<rparr>
      | Inr r \<Rightarrow> r)"

section \<open>The session registry and the monitor threads\<close>

text \<open>
  The shared state of \<^verbatim>\<open>app.py\<close>: the dictionary \<^verbatim>\<open>active_sessions\<close>, the threads started
  by \<^verbatim>\<open>handle_start_monitoring\<close> that have not left their loop, and what was emitted. Every
  handler and every step of a thread is one transition; a run of the server is a list of
  events in the order in which they take the lock.
\<close>

record session =
  active :: bool
  session_latitude :: pyval
  session_longitude :: pyval
  session_country_code :: pyval
  update_count :: nat

text \<open>
  A thread running \<^verbatim>\<open>monitor_location(session_id, lat, lon, country_code)\<close>. \<open>scoring\<close> is
  false at the head of the loop and true between the check and the end of the iteration.
\<close>

record monitor_thread =
  session_id :: string
  thread_lat :: pyval
  thread_lon :: pyval
  thread_country_code :: pyval
  scoring :: bool

datatype payload = Message string | Report safety_report

record server =
  active_sessions :: "string \<rightharpoonup> session"
  threads :: "monitor_thread list"
  emitted :: "(string \<times> string \<times> payload) list"

definition initial_server :: server where
  "initial_server = \<lparr>active_sessions = Map.empty, threads = [], emitted = []\<rparr>"

definition emit :: "string \<Rightarrow> string \<Rightarrow> payload \<Rightarrow> server \<Rightarrow> server" where
  "emit sid event_name p s = s\<lparr>emitted := emitted s @ [(sid, event_name, p)]\<rparr>"

definition handle_connect :: "string \<Rightarrow> server \<Rightarrow> server" where
  "handle_connect sid s = emit sid ''connected'' (Message ''Connected to Paddos'') s"

text \<open>
  Setting \<^verbatim>\<open>['active'] = False\<close> writes to the record that the next statement deletes;
  no thread holds that record (each looks the session up by its id), so what remains is
  the deletion.
\<close>

definition handle_disconnect :: "string \<Rightarrow> server \<Rightarrow> server" where
  "handle_disconnect sid s =
     (if sid \<in> dom (active_sessions s)
      then s\<lparr>active_sessions := (active_sessions s)(sid := None)\<rparr>
      else s)"

definition handle_stop_monitoring :: "string \<Rightarrow> server \<Rightarrow> server" where
  "handle_stop_monitoring sid s =
     (if sid \<in> dom (active_sessions s)
      then emit sid ''monitoring_stopped'' (Message ''Monitoring stopped'')
             (s\<lparr>active_sessions := (active_sessions s)(sid := None)\<rparr>)
      else s)"

text \<open>The \<^verbatim>\<open>try\<close> block of \<^verbatim>\<open>handle_start_monitoring\<close>; its \<^verbatim>\<open>except\<close> emits the error.\<close>

definition start_monitoring_try :: "string \<Rightarrow> pyval \<Rightarrow> server \<Rightarrow> exn + server" where
  "start_monitoring_try sid body s =
     bindE (dict_get body ''latitude'' PNone) (\<lambda>lat.
     bindE (dict_get body ''longitude'' PNone) (\<lambda>lon.
     bindE (dict_get body ''country_code'' (PStr ''XX'')) (\<lambda>country_code.
       if \<not> (truthy lat \<and> truthy lon)
       then Inr (emit sid ''error'' (Message ''Invalid coordinates'') s)
       else
         Inr (emit sid ''monitoring_started'' (Message ''Monitoring started'')
           (s\<lparr>active_sessions := (active_sessions s)(sid \<mapsto>
                 \<lparr>active = True, session_latitude = lat, session_longitude = lon,
                  session_country_code = country_code, update_count = 0\<rparr>),
               threads := threads s @
                 [\<lparr>session_id = sid, thread_lat = lat, thread_lon = lon,
                   thread_country_code = country_code, scoring = False\<rparr>]\<rparr>)))))"

definition handle_start_monitoring :: "string \<Rightarrow> pyval \<Rightarrow> server \<Rightarrow> server" where
  "handle_start_monitoring sid body s =
     (case start_monitoring_try sid body s of
        Inl e \<Rightarrow> emit sid ''error'' (Message (str_of_exn e)) s
      | Inr s' \<Rightarrow> s')"

text \<open>
  The head of the loop of thread number \<open>i\<close>: under the lock, leave the loop (the thread
  ends) when the session id is not in the registry or its record is not active.
\<close>

definition monitor_check :: "nat \<Rightarrow> server \<Rightarrow> server" where
  "monitor_check i s =
     (if i < length (threads s) \<and> \<not> scoring (threads s ! i) then
        (case active_sessions s (session_id (threads s ! i)) of
           None \<Rightarrow> s\<lparr>threads := take i (threads s) @ drop (Suc i) (threads s)\<rparr>
         | Some r \<Rightarrow>
             if \<not> active r
             then s\<lparr>threads := take i (threads s) @ drop (Suc i) (threads s)\<rparr>
             else s\<lparr>threads := (threads s)[i := (threads s ! i)\<lparr>scoring := True\<rparr>]\<rparr>)
      else s)"

text \<open>
  The rest of the iteration: score, count the update if the session is still registered,
  push the report; an exception of the scoring call is printed and the loop goes on.
\<close>

definition monitor_score :: "world \<Rightarrow> nat \<Rightarrow> server \<Rightarrow> server" where
  "monitor_score w i s =
     (if i < length (threads s) \<and> scoring (threads s ! i) then
        (let t = threads s ! i;
             s1 = s\<lparr>threads := (threads s)[i := t\<lparr>scoring := False\<rparr>]\<rparr>
         in case calculate_safety_score w (thread_lat t) (thread_lon t) (thread_country_code t) of
              Inl e \<Rightarrow> s1
            | Inr result \<Rightarrow>
                emit (session_id t) ''safety_update'' (Report result)
                  (case active_sessions s1 (session_id t) of
                     None \<Rightarrow> s1
                   | Some r \<Rightarrow>
                       s1\<lparr>active_sessions := (active_sessions s1)(session_id t \<mapsto>
                            r\<lparr>update_count := update_count r + 1\<rparr>)\<rparr>))
      else s)"

datatype event =
    Connect string
  | Disconnect string
  | Start_Monitoring string pyval
  | Stop_Monitoring string
  | Monitor_Check nat
  | Monitor_Score world nat

fun step :: "server \<Rightarrow> event \<Rightarrow> server" where
  "step s (Connect sid) = handle_connect sid s"
| "step s (Disconnect sid) = handle_disconnect sid s"
| "step s (Start_Monitoring sid body) = handle_start_monitoring sid body s"
| "step s (Stop_Monitoring sid) = handle_stop_monitoring sid s"
| "step s (Monitor_Check i) = monitor_check i s"
| "step s (Monitor_Score w i) = monitor_score w i s"

definition run :: "event list \<Rightarrow> server" where
  "run evs = foldl step initial_server evs"

text \<open>The live monitor threads bound to a session id.\<close>

definition live_tasks :: "server \<Rightarrow> string \<Rightarrow> monitor_thread list" where
  "live_tasks s sid = filter (\<lambda>t. session_id t = sid) (threads s)"

section \<open>Notions used by the statements\<close>

text \<open>
  The weighted sum of the four component scores for the data \<open>f\<close> fetched in the world
  \<open>w\<close>: the value \<^verbatim>\<open>raw_score\<close> has in \<open>scored_report\<close>.
\<close>

definition raw_of :: "world \<Rightarrow> fetched \<Rightarrow> exn + real" where
  "raw_of w f =
     raw_score (fst (time_band (hour w)))
       (emerg_score (hospitals_found f @ police_found f))
       (pop_score (hour w) (length (activity_found f)))
       (infra_score (hour w)
          (length (infra_found f) + length (bus_stops_found f) + length (trains_found f)))"

text \<open>The number of true flags among the four tracked source successes.\<close>

definition successful_count :: "fetched \<Rightarrow> nat" where
  "successful_count f =
     length (filter (\<lambda>b. b)
       [hosp_success f, police_success f, activity_success f, infra_success f])"


definition in_0_100 :: "real \<Rightarrow> bool" where
  "in_0_100 x = (0 \<le> x \<and> x \<le> 100)"


text \<open>A resolved coordinate that is missing or equal to 0 (\<^verbatim>\<open>False == 0\<close> in Python).\<close>

fun missing_or_zero :: "pyval \<Rightarrow> bool" where
  "missing_or_zero PNone = True"
| "missing_or_zero (PBool b) = (\<not> b)"
| "missing_or_zero (PInt i) = (i = 0)"
| "missing_or_zero (PFloat x) = (x = Fin 0)"
| "missing_or_zero v = False"

definition coordinate_missing_or_zero :: "pyval \<Rightarrow> bool" where
  "coordinate_missing_or_zero elem =
     ((case resolve elem ''lat'' of Inr v \<Rightarrow> missing_or_zero v | Inl e \<Rightarrow> False)
      \<or> (case resolve elem ''lon'' of Inr v \<Rightarrow> missing_or_zero v | Inl e \<Rightarrow> False))"

text \<open>An infinite float.\<close>

fun is_inf :: "pyval \<Rightarrow> bool" where
  "is_inf (PFloat PInf) = True"
| "is_inf (PFloat NInf) = True"
| "is_inf v = False"

text \<open>A number that is neither infinite nor NaN.\<close>

fun finite_number :: "pyval \<Rightarrow> bool" where
  "finite_number (PBool b) = True"
| "finite_number (PInt i) = True"
| "finite_number (PFloat (Fin x)) = True"
| "finite_number v = False"

text \<open>
  Two values whose difference as floats is infinite: one is an infinity and the other a
  finite number, or they are the two infinities of opposite sign.
\<close>

definition infinite_difference :: "pyval \<Rightarrow> pyval \<Rightarrow> bool" where
  "infinite_difference x y =
     ((is_inf x \<and> finite_number y) \<or> (finite_number x \<and> is_inf y)
      \<or> (x = PFloat PInf \<and> y = PFloat NInf) \<or> (x = PFloat NInf \<and> y = PFloat PInf))"

section \<open>Example inputs\<close>

definition elements_response :: "pyval list \<Rightarrow> http_result" where
  "elements_response elems = Http_Response 200 (Some (PDict [(''elements'', PList elems)]))"

text \<open>A point in Bengaluru, and a hospital node at the same coordinates.\<close>

definition example_lat :: pyval where
  "example_lat = PFloat (Fin (1297 / 100))"

definition example_lon :: pyval where
  "example_lon = PFloat (Fin (7759 / 100))"

definition example_hospital :: pyval where
  "example_hospital =
     PDict [(''type'', PStr ''node''), (''lat'', example_lat), (''lon'', example_lon),
            (''tags'', PDict [(''name'', PStr ''City Hospital'')])]"

text \<open>
  Noon: the hospital query finds the node, the police query times out, the bus, train
  and activity queries succeed with nothing found, the lighting query gets a 504.
\<close>

definition noon_world :: world where
  "noon_world =
     \<lparr>hour = 12, now_iso = ''2025-06-01T12:00:00'', hour_on_error = 12,
      post_hospital = elements_response [example_hospital],
      post_police = Transport_Error,
      post_bus_stop = elements_response [],
      post_train = elements_response [],
      post_activity = elements_response [],
      post_infrastructure = Http_Response 504 None\<rparr>"

text \<open>The same, but the activity query fails: the gate is closed although the hospital
  query succeeded.\<close>

definition activity_down_world :: world where
  "activity_down_world = noon_world\<lparr>post_activity := Transport_Error\<rparr>"


text \<open>An element on the equator, with a valid longitude.\<close>

definition equator_element :: pyval where
  "equator_element =
     PDict [(''type'', PStr ''node''), (''lat'', PInt 0), (''lon'', PFloat (Fin (7759 / 100)))]"

text \<open>A \<^verbatim>\<open>start_monitoring\<close> payload.\<close>

definition start_payload :: pyval where
  "start_payload =
     PDict [(''latitude'', example_lat), (''longitude'', example_lon),
            (''country_code'', PStr ''IN'')]"

text \<open>What the six queries of \<open>noon_world\<close> yield for the example point.\<close>

definition noon_hospital :: place where
  "noon_hospital =
     \<lparr>name = PStr ''City Hospital'', place_type = ''hospital'', distance = Fin 0,
      latitude = example_lat, longitude = example_lon\<rparr>"

definition noon_fetched :: fetched where
  "noon_fetched =
     \<lparr>hospitals_found = [noon_hospital], hosp_success = True,
      police_found = [], police_success = False,
      bus_stops_found = [], bus_success = True,
      trains_found = [], train_success = True,
      activity_found = [], activity_success = True,
      infra_found = [], infra_success = False\<rparr>"

text \<open>A \<^verbatim>\<open>start_monitoring\<close> payload whose coordinates are strings.\<close>

definition string_payload :: pyval where
  "string_payload =
     PDict [(''latitude'', PStr ''12.97''), (''longitude'', PStr ''77.59''),
            (''country_code'', PStr ''IN'')]"

section \<open>Lemmas: the haversine formula on the reals\<close>

lemma sin_half_sq: "(sin (x / 2))\<^sup>2 = (1 - cos x) / (2::real)"
  using cos_double_sin [of "x / 2"] by simp

lemma dot_le_one:
  fixes s1 s2 c1 c2 c :: real
  assumes 1: "s1\<^sup>2 + c1\<^sup>2 = 1" and 2: "s2\<^sup>2 + c2\<^sup>2 = 1" and c: "\<bar>c\<bar> \<le> 1"
  shows "s1 * s2 + c1 * c2 * c \<le> 1"
proof -
  have "c1 * c2 * c \<le> \<bar>c1 * c2\<bar> * \<bar>c\<bar>"
    by (metis abs_ge_self abs_mult)
  also have "\<dots> \<le> \<bar>c1 * c2\<bar>"
    using c by (simp add: mult_left_le)
  finally have a: "c1 * c2 * c \<le> \<bar>c1\<bar> * \<bar>c2\<bar>"
    by (simp add: abs_mult)
  have "0 \<le> (s1 - s2)\<^sup>2 + (\<bar>c1\<bar> - \<bar>c2\<bar>)\<^sup>2"
    by simp
  then have "2 * (s1 * s2) + 2 * (\<bar>c1\<bar> * \<bar>c2\<bar>) \<le> (s1\<^sup>2 + c1\<^sup>2) + (s2\<^sup>2 + c2\<^sup>2)"
    by (simp add: power2_diff algebra_simps)
  with 1 2 a show ?thesis by simp
qed

lemma dot_ge_minus_one:
  fixes s1 s2 c1 c2 c :: real
  assumes "s1\<^sup>2 + c1\<^sup>2 = 1" and "s2\<^sup>2 + c2\<^sup>2 = 1" and "\<bar>c\<bar> \<le> 1"
  shows "- 1 \<le> s1 * s2 + c1 * c2 * c"
proof -
  have "(- s1) * s2 + c1 * c2 * (- c) \<le> 1"
    by (rule dot_le_one) (use assms in simp_all)
  then show ?thesis by simp
qed

text \<open>The quantity \<open>a\<close> of the formula lies in \<open>[0, 1]\<close> for all real angles, so neither
  square root can fail on finite arguments.\<close>

lemma haversine_range:
  fixes p1 p2 l :: real
  defines "a \<equiv> (sin ((p2 - p1) / 2))\<^sup>2 + cos p1 * cos p2 * (sin (l / 2))\<^sup>2"
  shows "0 \<le> a \<and> a \<le> 1"
proof -
  have a: "a = (1 - (sin p1 * sin p2 + cos p1 * cos p2 * cos l)) / 2"
    unfolding a_def sin_half_sq by (simp add: cos_diff field_simps)
  have "sin p1 * sin p2 + cos p1 * cos p2 * cos l \<le> 1"
    by (rule dot_le_one) simp_all
  moreover have "- 1 \<le> sin p1 * sin p2 + cos p1 * cos p2 * cos l"
    by (rule dot_ge_minus_one) simp_all
  ultimately show ?thesis unfolding a by simp
qed

section \<open>Lemmas: calculate\_distance\<close>

lemma bindE_raises:
  assumes "\<And>x. m = Inr x \<Longrightarrow> \<exists>e. f x = Inl e"
  shows "\<exists>e. bindE m f = Inl e"
  using assms by (cases m) auto

lemma bindE_raises_first: "\<exists>e. m = Inl e \<Longrightarrow> \<exists>e. bindE m f = Inl e"
  by auto

lemma as_float_not_number: "\<not> is_number v \<Longrightarrow> \<exists>e. as_float v = Inl e"
  by (cases v) auto

lemma float_like_as_float: "float_like v \<Longrightarrow> \<exists>x. as_float v = Inr x"
  by (cases v) auto

lemma radians_not_number: "\<not> is_number v \<Longrightarrow> \<exists>e. math_radians v = Inl e"
  using as_float_not_number [of v] by (auto simp: math_radians_def)

lemma py_sub_not_number: "\<not> (is_number x \<and> is_number y) \<Longrightarrow> \<exists>e. py_sub x y = Inl e"
  by (cases x; cases y) (simp_all add: py_sub_def)

lemma distance_try_floats:
  "distance_try (PFloat x1) (PFloat y1) (PFloat x2) (PFloat y2) =
     bindE (haversine_a (fmul x1 (Fin (pi / 180))) (fmul x2 (Fin (pi / 180)))
              (fmul (fsub x2 x1) (Fin (pi / 180))) (fmul (fsub y2 y1) (Fin (pi / 180)))) (\<lambda>a.
     bindE (math_sqrt a) (\<lambda>r1.
     bindE (math_sqrt (fsub (Fin 1) a)) (\<lambda>r2.
       Inr (fmul (Fin (6371 * 2)) (math_atan2 r1 r2)))))"
  by (simp add: distance_try_def math_radians_def py_sub_def)

lemma distance_not_number:
  assumes "\<not> (is_number lat1 \<and> is_number lon1 \<and> is_number lat2 \<and> is_number lon2)"
  shows "calculate_distance lat1 lon1 lat2 lon2 = PInf"
proof -
  have "\<exists>e. distance_try lat1 lon1 lat2 lon2 = Inl e"
  proof (cases "is_number lat1 \<and> is_number lat2")
    case False
    then have "(\<exists>e. math_radians lat1 = Inl e) \<or> (\<exists>e. math_radians lat2 = Inl e)"
      using radians_not_number by blast
    then show ?thesis
      unfolding distance_try_def
      by (intro bindE_raises) auto
  next
    case True
    with assms have "\<not> (is_number lon2 \<and> is_number lon1)" by blast
    then have "\<exists>e. py_sub lon2 lon1 = Inl e"
      by (rule py_sub_not_number)
    then show ?thesis
      unfolding distance_try_def
      by (intro bindE_raises) auto
  qed
  then show ?thesis by (auto simp: calculate_distance_def)
qed

text \<open>The latitude 100, out of range, against the origin: the formula gives a distance.\<close>

lemma distance_latitude_100:
  "\<exists>d. calculate_distance (PFloat (Fin 100)) (PFloat (Fin 0)) (PFloat (Fin 0)) (PFloat (Fin 0))
         = Fin d"
proof -
  define a :: real where "a = (sin ((0 * (pi / 180) - 100 * (pi / 180)) / 2))\<^sup>2
      + cos (100 * (pi / 180)) * cos (0 * (pi / 180)) * (sin (0 / 2))\<^sup>2"
  have r: "0 \<le> a \<and> a \<le> 1"
    unfolding a_def by (rule haversine_range)
  have "haversine_a (fmul (Fin 100) (Fin (pi / 180))) (fmul (Fin 0) (Fin (pi / 180)))
              (fmul (fsub (Fin 0) (Fin 100)) (Fin (pi / 180)))
              (fmul (fsub (Fin 0) (Fin 0)) (Fin (pi / 180))) = Inr (Fin a)"
    by (simp add: haversine_a_def fhalf_def fsq_def fsub_def a_def power2_eq_square)
  then show ?thesis
    unfolding calculate_distance_def distance_try_floats
    using r by (simp add: fsub_def)
qed

lemma haversine_a_inf:
  assumes "p1 = PInf \<or> p1 = NInf \<or> p2 = PInf \<or> p2 = NInf"
  shows "\<exists>e. haversine_a p1 p2 dphi dlam = Inl e"
proof (cases "math_sin (fhalf dphi)")
  case (Inl e)
  then show ?thesis by (simp add: haversine_a_def)
next
  case s1: (Inr s1)
  show ?thesis
  proof (cases "math_cos p1")
    case (Inl e)
    with s1 show ?thesis by (simp add: haversine_a_def)
  next
    case c1: (Inr c1)
    then have "p1 \<noteq> PInf \<and> p1 \<noteq> NInf" by (cases p1) auto
    with assms have "p2 = PInf \<or> p2 = NInf" by blast
    then have "\<exists>e. math_cos p2 = Inl e" by auto
    with s1 c1 show ?thesis by (auto simp: haversine_a_def)
  qed
qed


lemma radians_inf:
  assumes "is_inf v" "math_radians v = Inr p"
  shows "p = PInf \<or> p = NInf"
proof -
  from assms(1) have "v = PFloat PInf \<or> v = PFloat NInf"
    by (cases v rule: is_inf.cases) auto
  with assms(2) show ?thesis
    by (auto simp: math_radians_def inf_times_def)
qed

lemma distance_infinite_latitude:
  assumes "is_inf lat1 \<or> is_inf lat2"
  shows "calculate_distance lat1 lon1 lat2 lon2 = PInf"
proof -
  have "\<exists>e. distance_try lat1 lon1 lat2 lon2 = Inl e"
    unfolding distance_try_def
  proof (rule bindE_raises, rule bindE_raises, rule bindE_raises, rule bindE_raises,
      rule bindE_raises, rule bindE_raises, rule bindE_raises_first)
    fix p1 p2 dlat dphi dlon dlam
    assume "math_radians lat1 = Inr p1" "math_radians lat2 = Inr p2"
    with assms have "p1 = PInf \<or> p1 = NInf \<or> p2 = PInf \<or> p2 = NInf"
      using radians_inf by blast
    then show "\<exists>e. haversine_a p1 p2 dphi dlam = Inl e"
      by (rule haversine_a_inf)
  qed
  then show ?thesis by (auto simp: calculate_distance_def)
qed

text \<open>
  An infinite difference of the longitudes stays infinite through \<^verbatim>\<open>math.radians\<close> and the
  division by 2, and \<^verbatim>\<open>math.sin\<close> raises on it, unless an earlier statement has raised.
\<close>

lemma py_sub_infinite:
  assumes "infinite_difference x y" "py_sub y x = Inr d"
  shows "is_inf d"
proof -
  from assms(1) consider
      (l) "is_inf x" "finite_number y"
    | (r) "finite_number x" "is_inf y"
    | (o) "(x = PFloat PInf \<and> y = PFloat NInf) \<or> (x = PFloat NInf \<and> y = PFloat PInf)"
    unfolding infinite_difference_def by blast
  then show ?thesis
  proof cases
    case l
    from l(1) have "x = PFloat PInf \<or> x = PFloat NInf"
      by (cases x rule: is_inf.cases) auto
    with l(2) assms(2) show ?thesis
      by (cases y rule: finite_number.cases)
        (auto simp: py_sub_def fsub_def split: if_splits)
  next
    case r
    from r(2) have "y = PFloat PInf \<or> y = PFloat NInf"
      by (cases y rule: is_inf.cases) auto
    with r(1) assms(2) show ?thesis
      by (cases x rule: finite_number.cases)
        (auto simp: py_sub_def fsub_def split: if_splits)
  next
    case o
    with assms(2) show ?thesis
      by (auto simp: py_sub_def fsub_def)
  qed
qed

lemma haversine_a_infinite_difference:
  assumes "dlam = PInf \<or> dlam = NInf"
  shows "\<exists>e. haversine_a p1 p2 dphi dlam = Inl e"
  unfolding haversine_a_def
proof (rule bindE_raises, rule bindE_raises, rule bindE_raises, rule bindE_raises_first)
  from assms show "\<exists>e. math_sin (fhalf dlam) = Inl e"
    by (auto simp: fhalf_def inf_times_def)
qed

lemma distance_infinite_longitude:
  assumes "infinite_difference lon1 lon2"
  shows "calculate_distance lat1 lon1 lat2 lon2 = PInf"
proof -
  have "\<exists>e. distance_try lat1 lon1 lat2 lon2 = Inl e"
    unfolding distance_try_def
  proof (rule bindE_raises, rule bindE_raises, rule bindE_raises, rule bindE_raises,
      rule bindE_raises, rule bindE_raises, rule bindE_raises_first)
    fix p1 p2 dlat dphi dlon dlam
    assume "py_sub lon2 lon1 = Inr dlon" "math_radians dlon = Inr dlam"
    with assms have "dlam = PInf \<or> dlam = NInf"
      using py_sub_infinite radians_inf by blast
    then show "\<exists>e. haversine_a p1 p2 dphi dlam = Inl e"
      by (rule haversine_a_infinite_difference)
  qed
  then show ?thesis by (auto simp: calculate_distance_def)
qed

text \<open>A NaN passes through every operation; so does the NaN that the difference of two
  equal infinities is.\<close>

lemma distance_nan:
  "calculate_distance (PFloat NaN) (PFloat (Fin 0)) (PFloat (Fin 0)) (PFloat (Fin 0)) = NaN"
  by (simp add: calculate_distance_def distance_try_floats haversine_a_def fhalf_def fsq_def
      fsub_def)

lemma distance_equal_infinite_longitudes:
  "calculate_distance (PFloat (Fin 0)) (PFloat PInf) (PFloat (Fin 0)) (PFloat PInf) = NaN"
  by (simp add: calculate_distance_def distance_try_floats haversine_a_def fhalf_def fsq_def
      fsub_def)

section \<open>Lemmas: rounding\<close>

lemma round_half_even_bounds:
  assumes "of_int m \<le> y" "y \<le> of_int n"
  shows "m \<le> round_half_even y \<and> round_half_even y \<le> n"
proof -
  have lo: "m \<le> \<lfloor>y\<rfloor>"
    using assms(1) by (simp add: le_floor_iff)
  show ?thesis
  proof (cases "y = of_int n")
    case True
    then show ?thesis using lo by (simp add: round_half_even_def)
  next
    case False
    with assms(2) have "y < of_int n" by simp
    then have "\<lfloor>y\<rfloor> < n" by (simp add: floor_less_iff)
    then show ?thesis using lo by (auto simp: round_half_even_def Let_def)
  qed
qed

lemma py_round_bounds:
  assumes "of_int m \<le> x" "x \<le> of_int n"
  shows "of_int m \<le> py_round x k \<and> py_round x k \<le> of_int n"
proof -
  have p: "(0::real) < 10 ^ k" by simp
  have "of_int (m * 10 ^ k) \<le> x * 10 ^ k" "x * 10 ^ k \<le> of_int (n * 10 ^ k)"
    using assms p by simp_all
  from round_half_even_bounds [OF this]
  have "m * 10 ^ k \<le> round_half_even (x * 10 ^ k)" "round_half_even (x * 10 ^ k) \<le> n * 10 ^ k"
    by simp_all
  then have "of_int (m * 10 ^ k) \<le> (of_int (round_half_even (x * 10 ^ k)) :: real)"
    "(of_int (round_half_even (x * 10 ^ k)) :: real) \<le> of_int (n * 10 ^ k)"
    by (simp_all only: of_int_le_iff)
  then show ?thesis using p by (simp add: py_round_def field_simps)
qed

lemma py_round_0_100: "in_0_100 x \<Longrightarrow> in_0_100 (py_round x k)"
  using py_round_bounds [of 0 x 100 k] by (simp add: in_0_100_def)

section \<open>Lemmas: the scoring steps\<close>

lemma raw_score_eq:
  "raw_score t e p i = Inr (t * (28 / 100) + e * (27 / 100) + p * (25 / 100) + i * (20 / 100))"
  by (simp add: raw_score_def dict_index_def WEIGHTS_def)

lemma raw_of_total: "\<exists>raw. raw_of w f = Inr raw"
  by (simp add: raw_of_def raw_score_eq)

lemma default_baseline: "dict_index COUNTRY_BASELINES ''DEFAULT'' = Inr 1"
  by (simp add: dict_index_def COUNTRY_BASELINES_def)

lemma country_multiplier_str:
  "country_multiplier (PStr s) =
     Inr (case map_of COUNTRY_BASELINES (upper s) of Some m \<Rightarrow> m | None \<Rightarrow> 1)"
  by (simp add: country_multiplier_def default_baseline)





lemma final_score_0_100: "in_0_100 (final_score raw m)"
  by (simp add: final_score_def in_0_100_def)



lemma sum_bools_filter: "sum_bools bs = length (filter (\<lambda>b. b) bs)"
  unfolding sum_bools_def by (induction bs) auto


lemma unavailable_gate:
  "services_available f \<Longrightarrow>
     unavailable_of f = (if infra_success f then [] else [''infrastructure''])"
  by (auto simp: services_available_def unavailable_of_def)




section \<open>Lemmas: the paths through calculate\_safety\_score\<close>

lemma banner_float_like: "float_like lat \<Longrightarrow> float_like lon \<Longrightarrow> banner lat lon = Inr ()"
  by (cases lat; cases lon) (simp_all add: banner_def)

lemma score_try_cases:
  "score_try w lat lon cc =
     (case fetch_all w lat lon of
        Inl e \<Rightarrow> Inl e
      | Inr f \<Rightarrow>
          if \<not> services_available f then Inr (degraded_report w (snd (time_band (hour w))))
          else scored_report w (fst (time_band (hour w))) (snd (time_band (hour w))) f cc)"
  by (simp add: score_try_def split: prod.split sum.split)


lemma calculate_numbers:
  assumes "float_like lat" "float_like lon"
  shows "calculate_safety_score w lat lon cc =
     Inr (case score_try w lat lon cc of Inl e \<Rightarrow> error_report w e | Inr r \<Rightarrow> r)"
  by (simp add: calculate_safety_score_def banner_float_like [OF assms])

text \<open>The closed gate: the report is the fixed degraded one.\<close>

lemma degraded_path:
  assumes "float_like lat" "float_like lon"
    and "fetch_all w lat lon = Inr f" "\<not> services_available f"
  shows "calculate_safety_score w lat lon cc =
     Inr (degraded_report w (snd (time_band (hour w))))"
  using assms(3,4) by (simp add: calculate_numbers [OF assms(1,2)] score_try_cases)

text \<open>The open gate with a country code that has \<^verbatim>\<open>upper\<close>: the report field by field.\<close>

lemma normal_path:
  assumes "float_like lat" "float_like lon"
    and "fetch_all w lat lon = Inr f" "services_available f"
    and "raw_of w f = Inr raw" "country_multiplier cc = Inr m"
  shows "calculate_safety_score w lat lon cc = Inr
     \<lparr>score = py_round (final_score raw m) 1,
      rating = fst (rating_of (final_score raw m)),
      color = snd (rating_of (final_score raw m)),
      confidence = confidence_of f,
      timestamp = now_iso w,
      breakdown =
        \<lparr>temporal_risk = py_round (fst (time_band (hour w))) 1,
         emergency_proximity = py_round (emerg_score (hospitals_found f @ police_found f)) 1,
         population_density = py_round (pop_score (hour w) (length (activity_found f))) 1,
         infrastructure = py_round (infra_score (hour w) (length (infra_found f)
             + length (bus_stops_found f) + length (trains_found f))) 1\<rparr>,
      time_period = snd (time_band (hour w)),
      service_status =
        \<lparr>overall = (if unavailable_of f = [] then ''All services operational''
                    else ''Limited data: '' @ join_comma (unavailable_of f)),
         status_color = (if unavailable_of f = [] then ''#4CAF50'' else ''#FF9800''),
         unavailable = unavailable_of f,
         message = None\<rparr>,
      nearest =
        \<lparr>hospital = first_or_none (hospitals_found f),
         police = first_or_none (police_found f),
         bus_stop = first_or_none (bus_stops_found f),
         train_station = first_or_none (trains_found f)\<rparr>,
      all_places =
        \<lparr>hospitals = take 5 (hospitals_found f),
         police_stations = take 5 (police_found f),
         bus_stops = take 10 (bus_stops_found f),
         train_stations = take 5 (trains_found f)\<rparr>,
      stats =
        \<lparr>activity_count = length (activity_found f),
         infrastructure_count = length (infra_found f) + length (bus_stops_found f)
             + length (trains_found f),
         emergency_services_density =
           (if hospitals_found f @ police_found f \<noteq> []
            then py_round (real (length (hospitals_found f @ police_found f)) / 25) 2
            else 0)\<rparr>\<rparr>"
  using assms(3-6)
  by (simp add: calculate_numbers [OF assms(1,2)] score_try_cases scored_report_def raw_of_def
      Let_def)

section \<open>Lemmas: the range test of api\_safety\<close>

lemma converts_small: "\<bar>i\<bar> \<le> 180 \<Longrightarrow> converts i"
proof -
  have "(180::int) < 2 ^ 10" by simp
  also have "(2::int) ^ 10 \<le> 2 ^ 970" by (rule power_increasing) simp_all
  also have "(2::int) ^ 970 \<le> 2 ^ 1024 - 2 ^ 970"
  proof -
    have "(2::int) ^ 1024 = 2 ^ 54 * 2 ^ 970" by (simp add: power_add [symmetric])
    moreover have "(2::int) \<le> 2 ^ 54" by (simp add: self_le_power)
    ultimately have "2 * (2::int) ^ 970 \<le> 2 ^ 1024"
      by (simp add: mult_right_mono)
    then show ?thesis by simp
  qed
  finally have "(180::int) < 2 ^ 1024 - 2 ^ 970" .
  then show "\<bar>i\<bar> \<le> 180 \<Longrightarrow> converts i"
    unfolding converts_def by (rule order_le_less_trans [rotated])
qed

lemma bindE_Inr_iff: "bindE m f = Inr y \<longleftrightarrow> (\<exists>x. m = Inr x \<and> f x = Inr y)"
  by (cases m) auto

lemma between_float_like:
  assumes "int_le_val lo v = Inr True" "val_le_int v hi = Inr True"
    and "- 180 \<le> lo" "hi \<le> 180"
  shows "float_like v"
proof (cases v)
  case (PInt i)
  with assms(1,2) have "lo \<le> i" "i \<le> hi"
    by (auto simp: int_le_val_def val_le_int_def)
  with assms(3,4) have "\<bar>i\<bar> \<le> 180" by simp
  with PInt show ?thesis by (simp add: converts_small)
qed (use assms in \<open>simp_all add: int_le_val_def\<close>)

lemma in_range_float_like:
  assumes "in_range lat lon = Inr True"
  shows "float_like lat \<and> float_like lon"
proof -
  from assms have "int_le_val (- 90) lat = Inr True \<and> val_le_int lat 90 = Inr True
      \<and> int_le_val (- 180) lon = Inr True \<and> val_le_int lon 180 = Inr True"
    by (auto simp: in_range_def bindE_Inr_iff split: if_splits)
  then show ?thesis
    using between_float_like [of "- 90" lat 90] between_float_like [of "- 180" lon 180]
    by simp
qed

section \<open>Lemmas: get\_nearby\_places\<close>

lemma missing_or_zero_falsy: "missing_or_zero v \<Longrightarrow> \<not> truthy v"
  by (cases v) auto

lemma place_of_missing_or_zero:
  assumes "coordinate_missing_or_zero elem"
  shows "place_of lat lon ptype elem = None"
proof (cases "resolve elem ''lat''")
  case (Inl e)
  then show ?thesis by (simp add: place_of_def place_try_def)
next
  case lat: (Inr a)
  show ?thesis
  proof (cases "resolve elem ''lon''")
    case (Inl e)
    with lat show ?thesis by (simp add: place_of_def place_try_def)
  next
    case lon: (Inr b)
    from assms lat lon have "missing_or_zero a \<or> missing_or_zero b"
      by (simp add: coordinate_missing_or_zero_def)
    then have "\<not> (truthy a \<and> truthy b)"
      using missing_or_zero_falsy by blast
    with lat lon show ?thesis by (simp add: place_of_def place_try_def)
  qed
qed

lemma map_filter_drop_None:
  assumes "\<And>x. \<not> P x \<Longrightarrow> f x = None"
  shows "List.map_filter f (filter P xs) = List.map_filter f xs"
  using assms by (induction xs) (auto simp: List.map_filter_simps split: option.split)

lemma nearby_elements:
  "ptype \<in> set query_types \<Longrightarrow>
   get_nearby_places (elements_response elems) lat lon ptype r =
     Inr (sorted_places (List.map_filter (place_of lat lon ptype) elems), True)"
  by (simp add: get_nearby_places_def fetch_osm_data_def elements_response_def)

lemma nearby_transport_error:
  "get_nearby_places Transport_Error lat lon ptype r = Inr ([], False)"
  by (simp add: get_nearby_places_def fetch_osm_data_def)

lemma nearby_bad_status:
  "st \<noteq> 200 \<Longrightarrow> get_nearby_places (Http_Response st body) lat lon ptype r = Inr ([], False)"
  by (simp add: get_nearby_places_def fetch_osm_data_def)

lemma query_types_member:
  "''hospital'' \<in> set query_types" "''police'' \<in> set query_types"
  "''bus_stop'' \<in> set query_types" "''train'' \<in> set query_types"
  "''activity'' \<in> set query_types" "''infrastructure'' \<in> set query_types"
  by (simp_all add: query_types_def)

lemma set_insort_place: "set (insort_place x ys) = insert x (set ys)"
  by (induction ys) auto

lemma set_sorted_places_from:
  "set (foldl (\<lambda>acc p. insort_place p acc) acc ps) = set acc \<union> set ps"
  by (induction ps arbitrary: acc) (auto simp: set_insort_place)

text \<open>Sorting keeps exactly the records it is given.\<close>

lemma set_sorted_places: "set (sorted_places ps) = set ps"
  by (simp add: sorted_places_def set_sorted_places_from)

text \<open>A record carries the resolved coordinates of its element, and both are true values.\<close>

lemma place_of_Some_truthy:
  assumes "place_of lat lon ptype elem = Some p"
  shows "resolve elem ''lat'' = Inr (latitude p) \<and> resolve elem ''lon'' = Inr (longitude p)
    \<and> truthy (latitude p) \<and> truthy (longitude p)"
proof -
  from assms have t: "place_try lat lon ptype elem = Inr (Some p)"
    by (simp add: place_of_def split: sum.splits)
  then obtain a b where a: "resolve elem ''lat'' = Inr a" and b: "resolve elem ''lon'' = Inr b"
    by (auto simp: place_try_def bindE_Inr_iff)
  from t a b have tr: "truthy a \<and> truthy b"
    by (auto simp: place_try_def split: if_splits)
  with t a b have "latitude p = a \<and> longitude p = b"
    by (auto simp: place_try_def Let_def bindE_Inr_iff split: if_splits)
  with a b tr show ?thesis by simp
qed

text \<open>No returned record has a missing or zero coordinate, whatever the server answered.\<close>

lemma returned_records_have_coordinates:
  assumes "get_nearby_places post lat lon ptype radius = Inr (ps, ok)" "p \<in> set ps"
  shows "\<not> missing_or_zero (latitude p) \<and> \<not> missing_or_zero (longitude p)"
proof -
  from assms obtain elems where
    "ps = sorted_places (List.map_filter (place_of lat lon ptype) elems)"
    by (auto simp: get_nearby_places_def bindE_Inr_iff split: if_splits prod.splits)
  with assms(2) obtain elem where "place_of lat lon ptype elem = Some p"
    by (auto simp: set_sorted_places List.map_filter_def)
  from place_of_Some_truthy [OF this] show ?thesis
    using missing_or_zero_falsy by blast
qed

section \<open>Lemmas: the example inputs\<close>

lemma upper_IN: "upper ''IN'' = ''IN''"
  by code_simp

lemma upper_zz: "upper ''zz'' = ''ZZ''"
  by code_simp

lemma example_numbers: "float_like example_lat" "float_like example_lon"
  by (simp_all add: example_lat_def example_lon_def)

lemma distance_same_point:
  "calculate_distance example_lat example_lon example_lat example_lon = Fin 0"
  by (simp add: calculate_distance_def distance_try_floats example_lat_def example_lon_def
      haversine_a_def fhalf_def fsq_def fsub_def atan2_real_def)

lemma place_of_example_hospital:
  "place_of example_lat example_lon ''hospital'' example_hospital = Some noon_hospital"
proof -
  have t: "truthy example_lat" "truthy example_lon"
    by (simp_all add: example_lat_def example_lon_def)
  have r: "resolve example_hospital ''lat'' = Inr example_lat"
    "resolve example_hospital ''lon'' = Inr example_lon"
    using t by (simp_all add: resolve_def example_hospital_def)
  have z: "py_round 0 2 = 0"
    by (simp add: py_round_def round_half_even_def)
  show ?thesis
    unfolding place_of_def place_try_def r
    using t by (simp add: distance_same_point z noon_hospital_def) (simp add: example_hospital_def)
qed

lemma noon_fetch: "fetch_all noon_world example_lat example_lon = Inr noon_fetched"
  by (simp add: fetch_all_def noon_world_def nearby_elements query_types_member
      nearby_transport_error nearby_bad_status List.map_filter_simps
      place_of_example_hospital sorted_places_def noon_fetched_def)

lemma noon_available: "services_available noon_fetched"
  by (simp add: services_available_def noon_fetched_def)

lemma noon_raw: "raw_of noon_world noon_fetched = Inr (7231 / 100)"
  by (simp add: raw_of_def raw_score_eq noon_world_def noon_fetched_def time_band_def
      emerg_score_def noon_hospital_def pop_score_def infra_score_def)

lemma noon_count: "successful_count noon_fetched = 2"
  by (simp add: successful_count_def noon_fetched_def)

lemma multiplier_IN: "country_multiplier (PStr ''IN'') = Inr (88 / 100)"
  by (simp add: country_multiplier_str upper_IN COUNTRY_BASELINES_def)

lemma lookup_zz: "map_of COUNTRY_BASELINES (upper ''zz'') = None"
  by (simp add: upper_zz COUNTRY_BASELINES_def)

lemma final_noon: "final_score (7231 / 100) (88 / 100) = 636328 / 10000"
  by (simp add: final_score_def)

lemma round_noon: "py_round (636328 / 10000) 1 = 636 / 10"
  by (simp add: py_round_def round_half_even_def)

lemma final_unknown: "final_score (7231 / 100) 1 = 7231 / 100"
  by (simp add: final_score_def)

lemma round_unknown: "py_round (7231 / 100) 1 = 723 / 10"
  by (simp add: py_round_def round_half_even_def)


lemma activity_down_fetch:
  "fetch_all activity_down_world example_lat example_lon =
     Inr (noon_fetched\<lparr>activity_success := False\<rparr>)"
  by (simp add: fetch_all_def activity_down_world_def noon_world_def nearby_elements
      query_types_member nearby_transport_error nearby_bad_status List.map_filter_simps
      place_of_example_hospital sorted_places_def noon_fetched_def)

lemma equator_missing: "coordinate_missing_or_zero equator_element"
  by (simp add: coordinate_missing_or_zero_def resolve_def equator_element_def)

lemma hospital_not_missing: "\<not> coordinate_missing_or_zero example_hospital"
  by (simp add: coordinate_missing_or_zero_def resolve_def example_hospital_def
      example_lat_def example_lon_def)

lemma nearby_one_hospital:
  "get_nearby_places (elements_response [example_hospital]) example_lat example_lon
     ''hospital'' 5000 = Inr ([noon_hospital], True)"
  by (simp add: nearby_elements query_types_member List.map_filter_simps
      place_of_example_hospital sorted_places_def)

section \<open>The claims\<close>

subsection \<open>C1: the score operation always returns a report\<close>




text \<open>
  Such coordinates do reach the function: \<^verbatim>\<open>handle_start_monitoring\<close> tests them for truth
  only, so the thread it starts calls \<^verbatim>\<open>calculate_safety_score\<close> with the strings, and its
  iteration ends in the \<^verbatim>\<open>except\<close> of \<^verbatim>\<open>monitor_location\<close> with nothing pushed.
\<close>

lemma string_coordinates_reach_scoring:
  "threads (run [Start_Monitoring ''abc'' string_payload, Monitor_Check 0]) =
     [\<lparr>session_id = ''abc'', thread_lat = PStr ''12.97'', thread_lon = PStr ''77.59'',
       thread_country_code = PStr ''IN'', scoring = True\<rparr>]
   \<and> emitted (run [Start_Monitoring ''abc'' string_payload, Monitor_Check 0,
                    Monitor_Score noon_world 0]) =
     [(''abc'', ''monitoring_started'', Message ''Monitoring started'')]"
  by (simp add: run_def initial_server_def handle_start_monitoring_def start_monitoring_try_def
      string_payload_def emit_def monitor_check_def monitor_score_def
      calculate_safety_score_def banner_def)

subsection \<open>C2: the degraded report\<close>

text \<open>
  Claim C2 says that the \<^verbatim>\<open>unavailable\<close> list of the degraded report holds the sources
  that failed and only those. The code returns the fixed list
  \<^verbatim>\<open>['emergency_services', 'activity_data']\<close>: here the hospital query succeeded and only the
  activity query failed, and the report still lists \<^verbatim>\<open>emergency_services\<close>.
\<close>

theorem degraded_lists_both_sources:
  "\<exists>f r. fetch_all activity_down_world example_lat example_lon = Inr f
     \<and> hosp_success f \<and> \<not> activity_success f
     \<and> calculate_safety_score activity_down_world example_lat example_lon (PStr ''IN'') = Inr r
     \<and> rating r = ''SERVICE UNAVAILABLE''
     \<and> unavailable (service_status r) = [''emergency_services'', ''activity_data'']"
  by (simp add: activity_down_fetch calculate_numbers [OF example_numbers] score_try_cases
      services_available_def noon_fetched_def degraded_report_def)

subsection \<open>C3: the final score and its band\<close>

text \<open>
  Claim C3. On the path that scores (numeric coordinates, the six fetches returned \<open>f\<close>,
  the gate is open, the weighted sum is \<open>raw\<close> and the country factor \<open>m\<close>), the function
  returns a report; the final score \<open>final_score raw m\<close> lies in \<open>[0, 100]\<close>; the rating is
  \<^verbatim>\<open>SAFE\<close> from 75, \<^verbatim>\<open>MODERATE\<close> from 55, \<^verbatim>\<open>CAUTION\<close> from 35 and \<^verbatim>\<open>HIGH RISK\<close> below, each
  bound included; and the \<^verbatim>\<open>score\<close> field is the final score rounded to one decimal, itself
  in \<open>[0, 100]\<close>.
\<close>

theorem final_score_bounded_and_banded:
  assumes "float_like lat" "float_like lon"
    and "fetch_all w lat lon = Inr f" "services_available f"
    and "raw_of w f = Inr raw" "country_multiplier cc = Inr m"
  shows "\<exists>r. calculate_safety_score w lat lon cc = Inr r
    \<and> 0 \<le> final_score raw m \<and> final_score raw m \<le> 100
    \<and> rating r = (if 75 \<le> final_score raw m then ''SAFE''
                  else if 55 \<le> final_score raw m then ''MODERATE''
                  else if 35 \<le> final_score raw m then ''CAUTION''
                  else ''HIGH RISK'')
    \<and> score r = py_round (final_score raw m) 1
    \<and> 0 \<le> score r \<and> score r \<le> 100"
  using final_score_0_100 [of raw m] py_round_0_100 [OF final_score_0_100, of raw m 1]
  by (simp add: normal_path [OF assms] rating_of_def in_0_100_def)

text \<open>
  At noon with a hospital on the spot and nothing else found, in India:
  \<open>88 \<sqdot> 0.28 + 96 \<sqdot> 0.27 + 35 \<sqdot> 0.25 + 65 \<sqdot> 0.20 = 72.31\<close>, times 0.88 is 63.6328, rating
  \<^verbatim>\<open>MODERATE\<close>, score 63.6.
\<close>

theorem final_score_bounded_and_banded_witness:
  "float_like example_lat \<and> float_like example_lon
   \<and> fetch_all noon_world example_lat example_lon = Inr noon_fetched
   \<and> services_available noon_fetched
   \<and> raw_of noon_world noon_fetched = Inr (7231 / 100)
   \<and> country_multiplier (PStr ''IN'') = Inr (88 / 100)
   \<and> final_score (7231 / 100) (88 / 100) = 636328 / 10000
   \<and> (\<exists>r. calculate_safety_score noon_world example_lat example_lon (PStr ''IN'') = Inr r
          \<and> rating r = ''MODERATE'' \<and> score r = 636 / 10)"
proof -
  from final_score_bounded_and_banded [OF example_numbers noon_fetch noon_available noon_raw
      multiplier_IN]
  obtain r where
    r: "calculate_safety_score noon_world example_lat example_lon (PStr ''IN'') = Inr r"
    and ra: "rating r = (if 75 \<le> final_score (7231 / 100) (88 / 100) then ''SAFE''
                  else if 55 \<le> final_score (7231 / 100) (88 / 100) then ''MODERATE''
                  else if 35 \<le> final_score (7231 / 100) (88 / 100) then ''CAUTION''
                  else ''HIGH RISK'')"
    and sc: "score r = py_round (final_score (7231 / 100) (88 / 100)) 1"
    by blast
  have "rating r = ''MODERATE''"
    using ra unfolding final_noon by simp
  moreover have "score r = 636 / 10"
    using sc unfolding final_noon round_noon .
  ultimately have
    "\<exists>r. calculate_safety_score noon_world example_lat example_lon (PStr ''IN'') = Inr r
          \<and> rating r = ''MODERATE'' \<and> score r = 636 / 10"
    using r by blast
  with example_numbers noon_fetch noon_available noon_raw multiplier_IN final_noon
  show ?thesis by blast
qed

text \<open>The bands on both sides of 75, 55 and 35.\<close>

lemma rating_at_the_bounds:
  "fst (rating_of 75) = ''SAFE'' \<and> fst (rating_of (7499 / 100)) = ''MODERATE''
   \<and> fst (rating_of 55) = ''MODERATE'' \<and> fst (rating_of (5499 / 100)) = ''CAUTION''
   \<and> fst (rating_of 35) = ''CAUTION'' \<and> fst (rating_of (3499 / 100)) = ''HIGH RISK''"
  by (simp add: rating_of_def)

subsection \<open>C4: the validation of the POST safety endpoint\<close>

text \<open>
  Claim C4 says that a latitude of 0 with a longitude in range is accepted. The code tests
  \<^verbatim>\<open>not (lat and lon)\<close> first, and 0 is false: the request below passes the range test
  \<^verbatim>\<open>-90 <= lat <= 90 and -180 <= lon <= 180\<close> and is rejected with status 400 and
  \<^verbatim>\<open>Invalid coordinates\<close>, in every world.
\<close>

theorem api_safety_rejects_zero_latitude:
  "in_range (PInt 0) (PInt 10) = Inr True
   \<and> api_safety w (Inr (PDict [(''latitude'', PInt 0), (''longitude'', PInt 10)])) =
       \<lparr>http_status = 400, success = False, data = None,
        error = Some ''Invalid coordinates''\<rparr>"
  by (simp add: api_safety_def api_safety_try_def in_range_def int_le_val_def val_le_int_def)

text \<open>String coordinates end in the \<^verbatim>\<open>except\<close> of the route, status 500: the range test
  raises \<^verbatim>\<open>TypeError\<close>.\<close>

lemma api_safety_string_coordinates:
  "api_safety w (Inr (PDict [(''latitude'', PStr ''12.97''), (''longitude'', PStr ''77.59'')])) =
     \<lparr>http_status = 500, success = False, data = None,
      error = Some (quoted ''<='' @ '' not supported between instances of '' @ quoted ''int''
                @ '' and '' @ quoted ''str'')\<rparr>"
  by (simp add: api_safety_def api_safety_try_def in_range_def int_le_val_def not_supported_def)

text \<open>Coordinates in range that are not 0 are accepted and scored.\<close>

lemma api_safety_accepts_nonzero_in_range:
  assumes "truthy lat" "truthy lon" "in_range lat lon = Inr True"
  shows "\<exists>r. api_safety w (Inr (PDict [(''latitude'', lat), (''longitude'', lon)])) =
       \<lparr>http_status = 200, success = True, data = Some r, error = None\<rparr>
     \<and> calculate_safety_score w lat lon (PStr ''XX'') = Inr r"
proof -
  from in_range_float_like [OF assms(3)] have n: "float_like lat" "float_like lon"
    by simp_all
  from calculate_numbers [OF n, of w "PStr ''XX''"] show ?thesis
    using assms by (simp add: api_safety_def api_safety_try_def)
qed

subsection \<open>C5: one live monitor thread per session\<close>

text \<open>
  Claim C5 says that a second start for a monitored session id does not leave two live
  threads bound to it. \<^verbatim>\<open>handle_start_monitoring\<close> overwrites the record and starts a
  thread without ending the first one, whose check finds an active record under its id:
  after two starts and the check of both threads, two threads are live for the id.
\<close>

theorem double_start_two_live_tasks:
  "length (live_tasks
     (run [Start_Monitoring ''abc'' start_payload, Start_Monitoring ''abc'' start_payload,
           Monitor_Check 0, Monitor_Check 1]) ''abc'') = 2"
  by (simp add: run_def initial_server_def handle_start_monitoring_def start_monitoring_try_def
      start_payload_def emit_def monitor_check_def live_tasks_def example_lat_def
      example_lon_def)

text \<open>The same after a stop and a new start, when the first thread has not reached its
  check in between.\<close>

lemma restart_keeps_old_task:
  "length (live_tasks
     (run [Start_Monitoring ''abc'' start_payload, Stop_Monitoring ''abc'',
           Start_Monitoring ''abc'' start_payload, Monitor_Check 0, Monitor_Check 1])
     ''abc'') = 2"
  by (simp add: run_def initial_server_def handle_start_monitoring_def start_monitoring_try_def
      handle_stop_monitoring_def start_payload_def emit_def monitor_check_def live_tasks_def
      example_lat_def example_lon_def)

subsection \<open>C6: the confidence\<close>

text \<open>
  Claim C6. On the path that scores, the function returns a report whose confidence is
  \<open>85 \<sqdot> n / 4\<close> rounded to one decimal, \<open>n\<close> the number of true flags among the hospital,
  police, activity and infrastructure successes. The open gate leaves \<open>n = 2, 3, 4\<close>, that
  is 42.5, 63.8 (63.75, a tie, rounded to the even digit) and 85.
\<close>

theorem confidence_formula:
  assumes "float_like lat" "float_like lon"
    and "fetch_all w lat lon = Inr f" "services_available f"
    and "country_multiplier cc = Inr m"
  shows "\<exists>r. calculate_safety_score w lat lon cc = Inr r
    \<and> confidence r = py_round (85 * real (successful_count f) / 4) 1
    \<and> ((successful_count f = 2 \<and> confidence r = 425 / 10)
       \<or> (successful_count f = 3 \<and> confidence r = 638 / 10)
       \<or> (successful_count f = 4 \<and> confidence r = 85))"
proof -
  obtain raw where raw: "raw_of w f = Inr raw"
    using raw_of_total by blast
  have c: "confidence_of f = py_round (85 * real (successful_count f) / 4) 1"
    by (simp add: confidence_of_def successful_count_def sum_bools_filter Let_def mult.commute)
  have v: "py_round (85 * real (2::nat) / 4) 1 = 425 / 10"
    "py_round (85 * real (3::nat) / 4) 1 = 638 / 10"
    "py_round (85 * real (4::nat) / 4) 1 = 85"
    by (simp_all add: py_round_def round_half_even_def)
  from assms(4)
  have "successful_count f = 2 \<or> successful_count f = 3 \<or> successful_count f = 4"
    by (auto simp: services_available_def successful_count_def)
  then have "(successful_count f = 2 \<and> confidence_of f = 425 / 10)
       \<or> (successful_count f = 3 \<and> confidence_of f = 638 / 10)
       \<or> (successful_count f = 4 \<and> confidence_of f = 85)"
    unfolding c using v by auto
  with c show ?thesis
    by (simp add: normal_path [OF assms(1-4) raw assms(5)])
qed

text \<open>In the noon world the hospital and activity queries succeeded, the police and
  lighting queries failed: two of four, confidence 42.5.\<close>

theorem confidence_formula_witness:
  "float_like example_lat \<and> float_like example_lon
   \<and> fetch_all noon_world example_lat example_lon = Inr noon_fetched
   \<and> services_available noon_fetched
   \<and> country_multiplier (PStr ''IN'') = Inr (88 / 100)
   \<and> successful_count noon_fetched = 2
   \<and> (\<exists>r. calculate_safety_score noon_world example_lat example_lon (PStr ''IN'') = Inr r
          \<and> confidence r = 425 / 10)"
  using confidence_formula [OF example_numbers noon_fetch noon_available multiplier_IN]
    example_numbers noon_fetch noon_available multiplier_IN noon_count
  by auto

subsection \<open>C7: the country multiplier\<close>

text \<open>
  Claim C7. On the path that scores, with a string country code \<open>cc\<close>: the factor \<open>k\<close> is
  the entry of \<^verbatim>\<open>COUNTRY_BASELINES\<close> under \<^verbatim>\<open>cc.upper()\<close>, and 1 when there is none; the final
  score is \<open>raw \<sqdot> k\<close> clamped to \<open>[0, 100]\<close>, the factor applied once, before the clamp; the
  score and the rating of the report are those of that final score. An unknown code thus
  scores as the factor 1.00 does.
\<close>

theorem multiplier_once:
  assumes "float_like lat" "float_like lon"
    and "fetch_all w lat lon = Inr f" "services_available f"
    and "raw_of w f = Inr raw"
  shows "\<exists>r k. country_multiplier (PStr cc) = Inr k
    \<and> calculate_safety_score w lat lon (PStr cc) = Inr r
    \<and> final_score raw k = min (max (raw * k) 0) 100
    \<and> score r = py_round (final_score raw k) 1
    \<and> rating r = fst (rating_of (final_score raw k))
    \<and> (\<forall>b. map_of COUNTRY_BASELINES (upper cc) = Some b \<longrightarrow> k = b)
    \<and> (map_of COUNTRY_BASELINES (upper cc) = None \<longrightarrow> k = 1)"
proof -
  let ?k = "case map_of COUNTRY_BASELINES (upper cc) of Some b \<Rightarrow> b | None \<Rightarrow> 1"
  have k: "country_multiplier (PStr cc) = Inr ?k"
    by (rule country_multiplier_str)
  have s: "\<exists>r. calculate_safety_score w lat lon (PStr cc) = Inr r
      \<and> score r = py_round (final_score raw ?k) 1
      \<and> rating r = fst (rating_of (final_score raw ?k))"
    by (simp add: normal_path [OF assms k])
  have c: "final_score raw ?k = min (max (raw * ?k) 0) 100"
    by (simp add: final_score_def)
  have t: "(\<forall>b. map_of COUNTRY_BASELINES (upper cc) = Some b \<longrightarrow> ?k = b)
    \<and> (map_of COUNTRY_BASELINES (upper cc) = None \<longrightarrow> ?k = 1)"
    by simp
  from s k c t show ?thesis
    apply (elim exE conjE)
    apply (intro exI conjI)
          apply assumption+
    done
qed

text \<open>The code \<^verbatim>\<open>zz\<close> is not in the table: the raw score 72.31 is the final score, and the
  report shows 72.3.\<close>

theorem multiplier_once_witness:
  "float_like example_lat \<and> float_like example_lon
   \<and> fetch_all noon_world example_lat example_lon = Inr noon_fetched
   \<and> services_available noon_fetched
   \<and> raw_of noon_world noon_fetched = Inr (7231 / 100)
   \<and> map_of COUNTRY_BASELINES (upper ''zz'') = None
   \<and> (\<exists>r. calculate_safety_score noon_world example_lat example_lon (PStr ''zz'') = Inr r
          \<and> score r = 723 / 10)"
proof -
  have "\<exists>r k. country_multiplier (PStr ''zz'') = Inr k
    \<and> calculate_safety_score noon_world example_lat example_lon (PStr ''zz'') = Inr r
    \<and> final_score (7231 / 100) k = min (max (7231 / 100 * k) 0) 100
    \<and> score r = py_round (final_score (7231 / 100) k) 1
    \<and> rating r = fst (rating_of (final_score (7231 / 100) k))
    \<and> (\<forall>b. map_of COUNTRY_BASELINES (upper ''zz'') = Some b \<longrightarrow> k = b)
    \<and> (map_of COUNTRY_BASELINES (upper ''zz'') = None \<longrightarrow> k = 1)"
    by (rule multiplier_once [OF example_numbers noon_fetch noon_available noon_raw])
  then have
    "\<exists>r. calculate_safety_score noon_world example_lat example_lon (PStr ''zz'') = Inr r
          \<and> score r = 723 / 10"
  proof (elim exE conjE)
    fix r k
    assume r: "calculate_safety_score noon_world example_lat example_lon (PStr ''zz'') = Inr r"
      and sc: "score r = py_round (final_score (7231 / 100) k) 1"
      and k: "map_of COUNTRY_BASELINES (upper ''zz'') = None \<longrightarrow> k = 1"
    from k lookup_zz have "k = 1" by (rule mp)
    with sc have "score r = 723 / 10"
      by (simp only: final_unknown round_unknown)
    with r show ?thesis by (intro exI conjI)
  qed
  with example_numbers noon_fetch noon_available noon_raw lookup_zz show ?thesis
    by (intro conjI)
qed

subsection \<open>C8: the sentinel of the distance operation\<close>

text \<open>
  Claim C8, as the code has it. \<^verbatim>\<open>calculate_distance\<close> never raises: it is a total
  function whose every exception has become the sentinel \<^verbatim>\<open>float('inf')\<close>. It returns the
  sentinel when an argument is not a number, when a latitude is infinite, and when the
  difference of the longitudes is infinite (one longitude is an infinity and the other a
  finite number, or they are infinities of opposite sign). It tests no range, and nothing
  is said here of finite or NaN arguments.
\<close>

theorem distance_sentinel_on_fault_only:
  "(\<not> (is_number lat1 \<and> is_number lon1 \<and> is_number lat2 \<and> is_number lon2) \<longrightarrow>
      calculate_distance lat1 lon1 lat2 lon2 = PInf)
   \<and> (is_inf lat1 \<or> is_inf lat2 \<longrightarrow> calculate_distance lat1 lon1 lat2 lon2 = PInf)
   \<and> (infinite_difference lon1 lon2 \<longrightarrow> calculate_distance lat1 lon1 lat2 lon2 = PInf)"
  using distance_not_number [of lat1 lon1 lat2 lon2]
    distance_infinite_latitude [of lat1 lat2 lon1 lon2]
    distance_infinite_longitude [of lon1 lon2 lat1 lat2]
  by (intro conjI impI) assumption+

text \<open>A string, an infinite latitude, and an infinite longitude against the int 77.\<close>

theorem distance_sentinel_on_fault_only_witness:
  "calculate_distance (PStr ''12.97'') (PFloat (Fin 0)) (PFloat (Fin 0)) (PFloat (Fin 0)) = PInf
   \<and> calculate_distance (PFloat PInf) (PFloat (Fin 0)) (PFloat (Fin 0)) (PFloat (Fin 0)) = PInf
   \<and> calculate_distance (PFloat (Fin 0)) (PFloat NInf) (PFloat (Fin 0)) (PInt 77) = PInf"
  using distance_sentinel_on_fault_only [of "PStr ''12.97''" "PFloat (Fin 0)" "PFloat (Fin 0)"
      "PFloat (Fin 0)"]
    distance_sentinel_on_fault_only [of "PFloat PInf" "PFloat (Fin 0)" "PFloat (Fin 0)"
      "PFloat (Fin 0)"]
    distance_sentinel_on_fault_only [of "PFloat (Fin 0)" "PFloat NInf" "PFloat (Fin 0)"
      "PInt 77"]
  by (simp add: infinite_difference_def)

text \<open>
  Claim C8 as stated fails: the latitude 100 is out of range and the result is not the
  sentinel; a NaN latitude is not finite and the result is NaN, not the sentinel.
\<close>

theorem distance_out_of_range_not_sentinel:
  "\<not> (- 90 \<le> (100::real) \<and> (100::real) \<le> 90)
   \<and> calculate_distance (PFloat (Fin 100)) (PFloat (Fin 0)) (PFloat (Fin 0)) (PFloat (Fin 0))
       \<noteq> PInf
   \<and> calculate_distance (PFloat NaN) (PFloat (Fin 0)) (PFloat (Fin 0)) (PFloat (Fin 0))
       \<noteq> PInf"
  using distance_latitude_100 distance_nan
  by auto

subsection \<open>C9: the unavailable list of a scored report\<close>

text \<open>
  Claim C9. On the path that scores, the function returns a report whose \<^verbatim>\<open>unavailable\<close>
  list holds neither \<^verbatim>\<open>emergency_services\<close> nor \<^verbatim>\<open>activity_data\<close>: it is a subset of
  \<^verbatim>\<open>{'infrastructure'}\<close>.
\<close>

theorem unavailable_only_infrastructure:
  assumes "float_like lat" "float_like lon"
    and "fetch_all w lat lon = Inr f" "services_available f"
    and "country_multiplier cc = Inr m"
  shows "\<exists>r. calculate_safety_score w lat lon cc = Inr r
    \<and> ''emergency_services'' \<notin> set (unavailable (service_status r))
    \<and> ''activity_data'' \<notin> set (unavailable (service_status r))
    \<and> set (unavailable (service_status r)) \<subseteq> {''infrastructure''}"
proof -
  obtain raw where raw: "raw_of w f = Inr raw"
    using raw_of_total by blast
  show ?thesis
    by (simp add: normal_path [OF assms(1-4) raw assms(5)] unavailable_gate [OF assms(4)])
qed

text \<open>In the noon world the lighting query failed, and the list is
  \<^verbatim>\<open>['infrastructure']\<close>.\<close>

theorem unavailable_only_infrastructure_witness:
  "float_like example_lat \<and> float_like example_lon
   \<and> fetch_all noon_world example_lat example_lon = Inr noon_fetched
   \<and> services_available noon_fetched
   \<and> country_multiplier (PStr ''IN'') = Inr (88 / 100)
   \<and> (\<exists>r. calculate_safety_score noon_world example_lat example_lon (PStr ''IN'') = Inr r
          \<and> set (unavailable (service_status r)) \<subseteq> {''infrastructure''})"
  using unavailable_only_infrastructure [OF example_numbers noon_fetch noon_available
      multiplier_IN]
    example_numbers noon_fetch noon_available multiplier_IN
  by auto

subsection \<open>C10: elements with a missing or zero coordinate\<close>

text \<open>
  Claim C10. An element whose resolved latitude or longitude is missing or equal to 0
  yields no record, so \<^verbatim>\<open>get_nearby_places\<close> returns what it returns for the answer without
  those elements; when every element is such, it returns no record at all. This holds
  although 0 is the latitude of the equator and the longitude of the prime meridian.
\<close>

theorem nearby_excludes_missing_or_zero:
  "get_nearby_places (elements_response elems) lat lon ptype radius =
     get_nearby_places
       (elements_response (filter (\<lambda>e. \<not> coordinate_missing_or_zero e) elems))
       lat lon ptype radius
   \<and> (coordinate_missing_or_zero elem \<longrightarrow> place_of lat lon ptype elem = None)
   \<and> ((\<forall>e \<in> set elems. coordinate_missing_or_zero e) \<and> ptype \<in> set query_types \<longrightarrow>
        get_nearby_places (elements_response elems) lat lon ptype radius = Inr ([], True))"
proof -
  have drop: "List.map_filter (place_of lat lon ptype)
               (filter (\<lambda>e. \<not> coordinate_missing_or_zero e) elems)
             = List.map_filter (place_of lat lon ptype) elems"
    by (rule map_filter_drop_None) (simp add: place_of_missing_or_zero)
  have eq: "get_nearby_places (elements_response elems) lat lon ptype radius =
     get_nearby_places
       (elements_response (filter (\<lambda>e. \<not> coordinate_missing_or_zero e) elems))
       lat lon ptype radius"
    by (simp add: get_nearby_places_def fetch_osm_data_def elements_response_def drop)
  have none: "get_nearby_places (elements_response elems) lat lon ptype radius = Inr ([], True)"
    if "\<forall>e \<in> set elems. coordinate_missing_or_zero e" "ptype \<in> set query_types"
  proof -
    from that(1) have "filter (\<lambda>e. \<not> coordinate_missing_or_zero e) elems = []"
      by (simp add: filter_empty_conv)
    with eq that(2) show ?thesis
      by (simp add: get_nearby_places_def fetch_osm_data_def elements_response_def
          sorted_places_def)
  qed
  from eq none place_of_missing_or_zero show ?thesis by blast
qed

text \<open>A node on the equator at longitude 77.59 is dropped; the hospital next to it in the
  same answer is kept.\<close>

theorem nearby_excludes_missing_or_zero_witness:
  "coordinate_missing_or_zero equator_element
   \<and> place_of example_lat example_lon ''hospital'' equator_element = None
   \<and> get_nearby_places (elements_response [equator_element, example_hospital])
        example_lat example_lon ''hospital'' 5000 = Inr ([noon_hospital], True)
   \<and> get_nearby_places (elements_response [equator_element])
        example_lat example_lon ''hospital'' 5000 = Inr ([], True)"
  using nearby_excludes_missing_or_zero [of "[equator_element, example_hospital]"
      example_lat example_lon "''hospital''" 5000 equator_element]
    nearby_excludes_missing_or_zero [of "[equator_element]"
      example_lat example_lon "''hospital''" 5000 equator_element]
  by (auto simp: equator_missing hospital_not_missing nearby_one_hospital query_types_member)

end
